theory Spec2Isabelle
  imports Complex_Main
begin

section \<open>JavaScript primitives used by the billing screens\<close>

text \<open>
  The screens \<^verbatim>\<open>Pharmacy.tsx\<close> (point of sale) and \<^verbatim>\<open>ViewSales.tsx\<close> (component
  \<^verbatim>\<open>Inventory\<close>, purchase entry) keep every form field as a string and turn it into a
  number with \<^verbatim>\<open>parseInt\<close> and \<^verbatim>\<open>parseFloat\<close> at the moment a handler runs.

  Numbers. A finite JavaScript number is an IEEE double; it is modelled by the real
  number it stands for, and \<^verbatim>\<open>NaN\<close> by \<open>None\<close> where a parse can produce it. Whatever
  produces a number from an exact value (reading an integer or a decimal literal, adding,
  subtracting, multiplying) rounds it with \<open>toDouble\<close>: to 53 significant bits, to the nearest, a tie
  going to the even significand. The exponent is not bounded in the model: overflow to
  \<^verbatim>\<open>Infinity\<close> (from \<open>2^1024\<close>) and the coarser grid below \<open>2^-1022\<close> are not
  represented, nor is the literal \<^verbatim>\<open>Infinity\<close>.

  Strings. A string is a list of 8-bit code units; code units above 255 are not
  represented.
\<close>

definition isWhiteSpace :: "char \<Rightarrow> bool" where
  \<comment> \<open>TAB, LF, VT, FF, CR, SP, NBSP: the white space and line terminators below 256\<close>
  "isWhiteSpace c = ((of_char c :: nat) \<in> {9, 10, 11, 12, 13, 32, 160})"

definition isDigit :: "char \<Rightarrow> bool" where
  "isDigit c = (48 \<le> (of_char c :: nat) \<and> (of_char c :: nat) \<le> 57)"

definition digitVal :: "char \<Rightarrow> nat" where
  "digitVal c = of_char c - 48"

definition isHexDigit :: "char \<Rightarrow> bool" where
  "isHexDigit c = (isDigit c \<or> (65 \<le> (of_char c :: nat) \<and> (of_char c :: nat) \<le> 70)
                             \<or> (97 \<le> (of_char c :: nat) \<and> (of_char c :: nat) \<le> 102))"

definition hexVal :: "char \<Rightarrow> nat" where
  "hexVal c = (if isDigit c then digitVal c
               else if (of_char c :: nat) \<le> 70 then of_char c - 55
               else of_char c - 87)"

definition decDigits :: "string \<Rightarrow> nat" where
  "decDigits ds = foldl (\<lambda>acc c. 10 * acc + digitVal c) 0 ds"

definition hexDigits :: "string \<Rightarrow> nat" where
  "hexDigits ds = foldl (\<lambda>acc c. 16 * acc + hexVal c) 0 ds"

definition trimStart :: "string \<Rightarrow> string" where
  "trimStart s = dropWhile isWhiteSpace s"

definition trim :: "string \<Rightarrow> string" where
  \<comment> \<open>\<^verbatim>\<open>String.prototype.trim\<close>: white space removed at both ends\<close>
  "trim s = rev (dropWhile isWhiteSpace (rev (dropWhile isWhiteSpace s)))"

fun bitLength :: "nat \<Rightarrow> nat" where
  \<comment> \<open>the number of binary digits of \<open>n\<close>\<close>
  "bitLength n = (if n = 0 then 0 else Suc (bitLength (n div 2)))"

declare bitLength.simps [simp del]

definition exponentOf :: "real \<Rightarrow> int" where
  \<comment> \<open>for \<open>x > 0\<close>, the exponent \<open>e\<close> with \<open>2^e \<le> x < 2^(e+1)\<close>\<close>
  "exponentOf x =
     (if 1 \<le> x then int (bitLength (nat \<lfloor>x\<rfloor>)) - 1
      else - int (bitLength (nat (\<lceil>1 / x\<rceil> - 1))))"

definition roundHalfEven :: "real \<Rightarrow> int" where
  \<comment> \<open>the nearest integer, the even one of the two on a tie\<close>
  "roundHalfEven y =
     (let f = \<lfloor>y\<rfloor>; r = y - real_of_int f
      in if r < 1 / 2 then f else if 1 / 2 < r then f + 1 else if even f then f else f + 1)"

definition toDouble :: "real \<Rightarrow> real" where
  \<comment> \<open>the double nearest to \<open>x\<close>: \<open>x\<close> is measured in units of \<open>2^(e-52)\<close>, where \<open>e\<close> is
      its exponent, and the count of units is rounded\<close>
  "toDouble x =
     (if x = 0 then 0
      else (let u = 2 powi (exponentOf \<bar>x\<bar> - 52)
            in sgn x * (real_of_int (roundHalfEven (\<bar>x\<bar> / u)) * u)))"

definition numAdd :: "real \<Rightarrow> real \<Rightarrow> real" where
  \<comment> \<open>\<^verbatim>\<open>x + y\<close> on numbers\<close>
  "numAdd x y = toDouble (x + y)"

definition numSub :: "real \<Rightarrow> real \<Rightarrow> real" where
  \<comment> \<open>\<^verbatim>\<open>x - y\<close> on numbers\<close>
  "numSub x y = toDouble (x - y)"

definition numMul :: "real \<Rightarrow> real \<Rightarrow> real" where
  \<comment> \<open>\<^verbatim>\<open>x * y\<close> on numbers\<close>
  "numMul x y = toDouble (x * y)"

definition parseInt :: "string \<Rightarrow> int option" where
  \<comment> \<open>\<^verbatim>\<open>parseInt(s)\<close> with no radix: leading white space is skipped, then an optional
      sign, then an optional \<^verbatim>\<open>0x\<close> (which switches to base 16), then the longest run of
      digits; whatever follows the digits is ignored. No digit: \<^verbatim>\<open>NaN\<close>. The result is
      the double nearest to the integer read, itself an integer.\<close>
  "parseInt inputString =
     (let S = trimStart inputString;
          sign = (if S \<noteq> [] \<and> hd S = CHR ''-'' then - 1 else 1 :: int);
          S1 = (if S \<noteq> [] \<and> (hd S = CHR ''+'' \<or> hd S = CHR ''-'') then tl S else S);
          hex = (take 2 S1 = ''0x'' \<or> take 2 S1 = ''0X'');
          S2 = (if hex then drop 2 S1 else S1);
          Z = takeWhile (if hex then isHexDigit else isDigit) S2
      in if Z = [] then None
         else Some (sign * \<lfloor>toDouble (real (if hex then hexDigits Z else decDigits Z))\<rfloor>))"

definition exponentPart :: "string \<Rightarrow> int" where
  \<comment> \<open>the value of an \<^verbatim>\<open>ExponentPart\<close> at the head of the string: \<^verbatim>\<open>e\<close> or \<^verbatim>\<open>E\<close>, an
      optional sign and at least one digit; 0 when there is none\<close>
  "exponentPart r =
     (if r \<noteq> [] \<and> (hd r = CHR ''e'' \<or> hd r = CHR ''E'') then
        (let r1 = tl r;
             neg = (r1 \<noteq> [] \<and> hd r1 = CHR ''-'');
             r2 = (if r1 \<noteq> [] \<and> (hd r1 = CHR ''+'' \<or> hd r1 = CHR ''-'') then tl r1 else r1);
             ds = takeWhile isDigit r2
         in if ds = [] then 0 else if neg then - int (decDigits ds) else int (decDigits ds))
      else 0)"

definition scale10 :: "real \<Rightarrow> int \<Rightarrow> real" where
  "scale10 x e = (if 0 \<le> e then x * 10 ^ nat e else x / 10 ^ nat (- e))"

definition parseFloat :: "string \<Rightarrow> real option" where
  \<comment> \<open>\<^verbatim>\<open>parseFloat(s)\<close>: leading white space is skipped and the longest prefix that is a
      decimal literal is read (sign, digits, fraction, exponent); the rest is ignored.
      The result is the double nearest to the value of the literal. No such prefix:
      \<^verbatim>\<open>NaN\<close>. The literal \<^verbatim>\<open>Infinity\<close> is not a finite number and is outside this
      model of numbers; it reads as not a number here.\<close>
  "parseFloat inputString =
     (let t = trimStart inputString;
          neg = (t \<noteq> [] \<and> hd t = CHR ''-'');
          u = (if t \<noteq> [] \<and> (hd t = CHR ''+'' \<or> hd t = CHR ''-'') then tl t else t);
          ip = takeWhile isDigit u;
          r1 = dropWhile isDigit u;
          dot = (r1 \<noteq> [] \<and> hd r1 = CHR ''.'');
          fp = (if dot then takeWhile isDigit (tl r1) else []);
          r2 = (if dot then dropWhile isDigit (tl r1) else r1)
      in if ip = [] \<and> fp = [] then None
         else (let m = toDouble (scale10 (real (decDigits (ip @ fp)))
                                         (exponentPart r2 - int (length fp)))
               in Some (if neg then - m else m)))"

definition orZero :: "real option \<Rightarrow> real" where
  \<comment> \<open>\<^verbatim>\<open>x || 0\<close> on a number: \<^verbatim>\<open>NaN\<close> and 0 are falsy\<close>
  "orZero x = (case x of None \<Rightarrow> 0 | Some v \<Rightarrow> v)"

definition digitChar :: "nat \<Rightarrow> char" where
  "digitChar d = ''0123456789'' ! (d mod 10)"

fun natDigits :: "nat \<Rightarrow> string" where
  "natDigits n = (if n < 10 then [digitChar n] else natDigits (n div 10) @ [digitChar (n mod 10)])"

declare natDigits.simps [simp del]

definition toFixed2 :: "real \<Rightarrow> string" where
  \<comment> \<open>\<^verbatim>\<open>x.toFixed(2)\<close>: the integer \<open>n\<close> nearest to \<open>100 * |x|\<close> (the larger on a tie),
      written with at least three digits and a point before the last two; \<open>x\<close> is the
      exact value of the double, and nothing is rounded before \<open>n\<close> is chosen. From
      \<open>10^21\<close> on JavaScript switches to exponent notation, which is not reproduced.\<close>
  "toFixed2 x =
     (let s = (if x < 0 then ''-'' else '''');
          n = nat \<lfloor>\<bar>x\<bar> * 100 + 1 / 2\<rfloor>;
          m = natDigits n;
          m' = (if length m \<le> 2 then replicate (3 - length m) CHR ''0'' @ m else m);
          k = length m'
      in s @ take (k - 2) m' @ ''.'' @ drop (k - 2) m')"

definition phoneOk :: "string \<Rightarrow> bool" where
  \<comment> \<open>the regular expression \<^verbatim>\<open>/^\d{10}$/\<close>\<close>
  "phoneOk s = (length s = 10 \<and> list_all isDigit s)"

definition orDash :: "string \<Rightarrow> string" where
  \<comment> \<open>\<^verbatim>\<open>s || '-'\<close> on a string: the empty string is falsy\<close>
  "orDash s = (if s = [] then ''-'' else s)"

section \<open>Point of sale: the state of the \<^verbatim>\<open>Pharmacy\<close> component\<close>

text \<open>
  One field per \<^verbatim>\<open>useState\<close> of \<^verbatim>\<open>Pharmacy.tsx\<close> that a modelled handler reads or
  writes. The loading flags are left out: no handler below depends on them.
\<close>

record Patient =
  PName :: string
  Phone :: string
  UHId :: string

record Medicine =
  MId :: int
  MName :: string
  MRP :: real
  MCompany :: string
  CurrentStock :: real
  MType :: string
  BatchNo :: "string option"   \<comment> \<open>the optional field \<^verbatim>\<open>BatchNo\<close>\<close>

record BillItem =
  item_id :: nat        \<comment> \<open>field \<^verbatim>\<open>id\<close>\<close>
  name :: string
  batch :: string
  qty :: int
  price :: real
  item_duration :: string   \<comment> \<open>field \<^verbatim>\<open>duration\<close>\<close>
  total :: real
  mid :: int

record MedicineDetails =
  det_MRP :: "real option"
  det_MType :: "string option"
  det_BatchNo :: "string option"

datatype submitMessage =
    InvoiceCreated string string
      \<comment> \<open>type \<^verbatim>\<open>success\<close>; the invoice id and the text of the total\<close>
  | SubmitError string
      \<comment> \<open>type \<^verbatim>\<open>error\<close> and its text\<close>

record state =
  showClearConfirm :: bool
  patients :: "Patient list"
  selectedPatient :: string
  patientName :: string
  phoneNo :: string
  uhid :: string
  age :: string
  gender :: string
  isNewPatient :: bool
  medicines :: "Medicine list"
  selectedMedicine :: string
  medicineDetails :: "MedicineDetails option"
  quantity :: string
  duration :: string
  batchNo :: string
  currentStock :: "real option"
  billItems :: "BillItem list"
  itemCounter :: nat
  discount :: string
  paymentMode :: string
  cashAmount :: string
  upiAmount :: string
  paymentComments :: string
  submitting :: bool
  submitMessage :: "submitMessage option"

definition initialState :: state where
  "initialState =
     \<lparr> showClearConfirm = False, patients = [], selectedPatient = [], patientName = [],
       phoneNo = [], uhid = [], age = [], gender = [], isNewPatient = False,
       medicines = [], selectedMedicine = [], medicineDetails = None, quantity = [],
       duration = [], batchNo = ''-'', currentStock = None, billItems = [],
       itemCounter = 0, discount = [], paymentMode = [], cashAmount = [],
       upiAmount = [], paymentComments = [], submitting = False, submitMessage = None \<rparr>"

datatype toast =
    SelectMedicineAndQuantity   \<comment> \<open>\<^verbatim>\<open>Please select medicine and enter quantity\<close>\<close>
  | MedicineNotFound            \<comment> \<open>\<^verbatim>\<open>Medicine not found\<close>\<close>
  | InvalidQuantity             \<comment> \<open>\<^verbatim>\<open>Please enter a valid quantity\<close>\<close>
  | InsufficientStock real int  \<comment> \<open>\<^verbatim>\<open>Insufficient stock!\<close> with Available and Requested\<close>
  | AllItemsCleared             \<comment> \<open>\<^verbatim>\<open>All items cleared\<close>\<close>
  | EnterPatientName            \<comment> \<open>\<^verbatim>\<open>Please enter patient name\<close>\<close>
  | AddAtLeastOneMedicine       \<comment> \<open>\<^verbatim>\<open>Please add at least one medicine to the prescription\<close>\<close>
  | SelectPaymentMode           \<comment> \<open>\<^verbatim>\<open>Please select a payment mode\<close>\<close>
  | InvalidPhone                \<comment> \<open>\<^verbatim>\<open>Please enter a valid 10-digit phone number or leave it blank\<close>\<close>
  | SplitMismatch string string \<comment> \<open>\<^verbatim>\<open>Cash + UPI (a) must equal total b\<close>, both with two decimals\<close>

subsection \<open>Derived values, recomputed at every render\<close>

definition grandTotal :: "state \<Rightarrow> real" where
  "grandTotal st = foldl (\<lambda>sum item. numAdd sum (total item)) 0 (billItems st)"

definition discountValue :: "state \<Rightarrow> real" where
  "discountValue st = orZero (parseFloat (discount st))"

definition finalAmount :: "state \<Rightarrow> real" where
  "finalAmount st = max (numSub (grandTotal st) (discountValue st)) 0"

subsection \<open>Adding and removing bill lines\<close>

definition newItem :: "state \<Rightarrow> Medicine \<Rightarrow> int \<Rightarrow> BillItem" where
  \<comment> \<open>the line that \<^verbatim>\<open>handleAddMedicine\<close> builds for \<open>medicine\<close> and the quantity \<open>q\<close>\<close>
  "newItem st medicine q =
     \<lparr> item_id = itemCounter st + 1,
       name = MName medicine,
       batch = orDash (batchNo st),
       qty = q,
       price = MRP medicine,
       item_duration = orDash (duration st),
       total = numMul (MRP medicine) (real_of_int q),
       mid = MId medicine \<rparr>"

definition handleAddMedicine :: "state \<Rightarrow> state \<times> toast option" where
  \<comment> \<open>the state after the handler and the toast it shows, if any\<close>
  "handleAddMedicine st =
     (if selectedMedicine st = [] \<or> quantity st = [] then (st, Some SelectMedicineAndQuantity)
      else case find (\<lambda>m. MName m = selectedMedicine st) (medicines st) of
        None \<Rightarrow> (st, Some MedicineNotFound)
      | Some medicine \<Rightarrow>
         (case parseInt (quantity st) of
            None \<Rightarrow> (st, Some InvalidQuantity)
          | Some q \<Rightarrow>
             if q \<le> 0 then (st, Some InvalidQuantity)
             else if real_of_int q > CurrentStock medicine
               then (st, Some (InsufficientStock (CurrentStock medicine) q))
             else
               (st\<lparr> billItems := billItems st @ [newItem st medicine q],
                     itemCounter := itemCounter st + 1,
                     selectedMedicine := [],
                     quantity := [],
                     duration := [],
                     batchNo := ''-'',
                     medicineDetails := None,
                     currentStock := None \<rparr>, None)))"

definition handleRemoveMedicine :: "nat \<Rightarrow> state \<Rightarrow> state" where
  "handleRemoveMedicine i st =
     st\<lparr> billItems := filter (\<lambda>item. item_id item \<noteq> i) (billItems st) \<rparr>"

definition handleClearAll :: "state \<Rightarrow> state" where
  "handleClearAll st = (if billItems st = [] then st else st\<lparr> showClearConfirm := True \<rparr>)"

definition confirmClearAll :: "state \<Rightarrow> state \<times> toast option" where
  "confirmClearAll st =
     (st\<lparr> billItems := [], showClearConfirm := False \<rparr>, Some AllItemsCleared)"

definition handleClearForm :: "state \<Rightarrow> state" where
  "handleClearForm st =
     st\<lparr> selectedPatient := [], patientName := [], phoneNo := [], uhid := [],
         age := [], gender := [], isNewPatient := False, billItems := [],
         discount := [], paymentMode := [], cashAmount := [], upiAmount := [],
         paymentComments := [], selectedMedicine := [], quantity := [],
         duration := [], batchNo := ''-'', medicineDetails := None,
         currentStock := None \<rparr>"

subsection \<open>The payment-mode effect\<close>

definition paymentModeEffect :: "state \<Rightarrow> state" where
  \<comment> \<open>the body of the \<^verbatim>\<open>useEffect\<close> with dependencies \<^verbatim>\<open>[paymentMode, finalAmount]\<close>\<close>
  "paymentModeEffect st =
     (if paymentMode st = ''Cash''
        then st\<lparr> cashAmount := toFixed2 (finalAmount st), upiAmount := ''0.00'' \<rparr>
      else if paymentMode st = ''UPI''
        then st\<lparr> upiAmount := toFixed2 (finalAmount st), cashAmount := ''0.00'' \<rparr>
      else if paymentMode st = ''Both''
        then st\<lparr> cashAmount := [], upiAmount := [] \<rparr>
      else st)"

definition render :: "state \<Rightarrow> state \<Rightarrow> state" where
  \<comment> \<open>after a handler has taken the state from \<open>prev\<close> to \<open>st\<close>, React runs the effect
      if and only if one of its dependencies has changed\<close>
  "render prev st =
     (if paymentMode st \<noteq> paymentMode prev \<or> finalAmount st \<noteq> finalAmount prev
      then paymentModeEffect st else st)"

subsection \<open>Submitting the invoice\<close>

record invoiceLine =
  line_medicine :: string
  line_batch_no :: string
  line_quantity :: int
  line_price :: real
  line_duration :: string

record invoicePayload =
  patient_name :: string
  phone_no :: string
  req_uhid :: string
  req_age :: string
  req_gender :: string
  req_medicines :: "invoiceLine list"
  req_discount :: real
  payment_mode :: string
  cash_amount :: real
  upi_amount :: real
  comments :: string

record invoiceResponse =
  success :: bool
  invoice_id :: string
  final_amount :: "real option"
  error :: "string option"

datatype postResult =
    Resolved invoiceResponse   \<comment> \<open>the request returned \<^verbatim>\<open>response.data\<close>\<close>
  | Rejected "string option"   \<comment> \<open>the request threw; the message when it threw an \<^verbatim>\<open>Error\<close>\<close>

definition tolerance :: real where
  \<comment> \<open>the literal \<^verbatim>\<open>0.01\<close>\<close>
  "tolerance = toDouble (1 / 100)"

definition submitValidation :: "state \<Rightarrow> toast option" where
  \<comment> \<open>the checks at the head of \<^verbatim>\<open>handleSubmit\<close>, in the order of the source; each one
      shows its toast and returns\<close>
  "submitValidation st =
     (if trim (patientName st) = [] then Some EnterPatientName
      else if billItems st = [] then Some AddAtLeastOneMedicine
      else if paymentMode st = [] then Some SelectPaymentMode
      else if isNewPatient st \<and> phoneNo st \<noteq> [] \<and> \<not> phoneOk (phoneNo st) then Some InvalidPhone
      else if paymentMode st = ''Both'' \<and>
              \<bar>numSub (numAdd (orZero (parseFloat (cashAmount st)))
                              (orZero (parseFloat (upiAmount st))))
                      (finalAmount st)\<bar> > tolerance
        then Some (SplitMismatch
                     (toFixed2 (numAdd (orZero (parseFloat (cashAmount st)))
                                       (orZero (parseFloat (upiAmount st)))))
                     (toFixed2 (finalAmount st)))
      else None)"

definition invoiceData :: "state \<Rightarrow> invoicePayload" where
  "invoiceData st =
     \<lparr> patient_name = patientName st,
       phone_no = phoneNo st,
       req_uhid = uhid st,
       req_age = age st,
       req_gender = gender st,
       req_medicines = map (\<lambda>item. \<lparr> line_medicine = name item, line_batch_no = batch item,
                                       line_quantity = qty item, line_price = price item,
                                       line_duration = item_duration item \<rparr>) (billItems st),
       req_discount = discountValue st,
       payment_mode = paymentMode st,
       cash_amount = (if paymentMode st = ''Cash'' then finalAmount st
                      else if paymentMode st = ''Both'' then orZero (parseFloat (cashAmount st))
                      else 0),
       upi_amount = (if paymentMode st = ''UPI'' then finalAmount st
                     else if paymentMode st = ''Both'' then orZero (parseFloat (upiAmount st))
                     else 0),
       comments = paymentComments st \<rparr>"

definition failedText :: string where
  "failedText = ''Failed to create invoice''"

definition handleSubmit :: "postResult \<Rightarrow> state \<Rightarrow> state \<times> toast option \<times> invoicePayload option" where
  \<comment> \<open>the result: the state once the handler has finished, the toast shown, and the
      payload posted to \<^verbatim>\<open>/pharmacy/api/invoice\<close> (\<open>None\<close>: no request was made).
      \<open>res\<close> is what that request does. The refresh of the patient list after a
      success only replaces \<open>patients\<close> and is left out.\<close>
  "handleSubmit res st =
     (case submitValidation st of
        Some t \<Rightarrow> (st, Some t, None)
      | None \<Rightarrow>
         (let st1 = st\<lparr> submitting := True, submitMessage := None \<rparr>;
              st2 =
                (case res of
                   Resolved r \<Rightarrow>
                     if success r then
                       handleClearForm
                         (st1\<lparr> submitMessage :=
                                 Some (InvoiceCreated (invoice_id r)
                                         (case final_amount r of
                                            None \<Rightarrow> ''undefined''
                                          | Some a \<Rightarrow> toFixed2 a)) \<rparr>)
                     else
                       st1\<lparr> submitMessage :=
                              Some (SubmitError
                                      (case error r of
                                         None \<Rightarrow> failedText
                                       | Some e \<Rightarrow> if e = [] then failedText else e)) \<rparr>
                 | Rejected m \<Rightarrow>
                     st1\<lparr> submitMessage :=
                            Some (SubmitError (case m of None \<Rightarrow> failedText | Some e \<Rightarrow> e)) \<rparr>)
          in (st2\<lparr> submitting := False \<rparr>, None, Some (invoiceData st))))"

subsection \<open>Selections and the events of the screen\<close>

datatype detailsFetch =
    DetailsOk MedicineDetails   \<comment> \<open>\<^verbatim>\<open>success\<close> with data\<close>
  | DetailsNone                 \<comment> \<open>a response without \<^verbatim>\<open>success\<close> or without data\<close>
  | DetailsThrow                \<comment> \<open>the request threw\<close>

definition handleMedicineSelect :: "string \<Rightarrow> detailsFetch \<Rightarrow> state \<Rightarrow> state" where
  "handleMedicineSelect v fetch st =
     (let st1 = st\<lparr> selectedMedicine := v \<rparr> in
      if v = [] then st1\<lparr> medicineDetails := None, batchNo := ''-'', currentStock := None \<rparr>
      else
        (let st2 = (case find (\<lambda>m. MName m = v) (medicines st) of
                      Some medicine \<Rightarrow> st1\<lparr> currentStock := Some (CurrentStock medicine) \<rparr>
                    | None \<Rightarrow> st1)
         in case fetch of
              DetailsOk d \<Rightarrow>
                st2\<lparr> medicineDetails := Some d,
                     batchNo := (case det_BatchNo d of None \<Rightarrow> ''-'' | Some b \<Rightarrow> orDash b) \<rparr>
            | DetailsNone \<Rightarrow> st2
            | DetailsThrow \<Rightarrow> st2\<lparr> medicineDetails := None \<rparr>))"

definition handlePatientSelect :: "string \<Rightarrow> string option \<Rightarrow> state \<Rightarrow> state" where
  \<comment> \<open>\<open>gen\<close>: the UHID that \<^verbatim>\<open>generateUHId\<close> obtains for a new patient, if any\<close>
  "handlePatientSelect v gen st =
     (let st1 = st\<lparr> selectedPatient := v \<rparr> in
      case find (\<lambda>p. PName p = v) (patients st) of
        Some existingPatient \<Rightarrow>
          st1\<lparr> patientName := PName existingPatient, phoneNo := Phone existingPatient,
               uhid := UHId existingPatient, isNewPatient := False, age := [], gender := [] \<rparr>
      | None \<Rightarrow>
          if trim v \<noteq> [] then
            (let st2 = st1\<lparr> patientName := v, phoneNo := [], isNewPatient := True,
                            age := [], gender := [] \<rparr>
             in case gen of Some u \<Rightarrow> st2\<lparr> uhid := u \<rparr> | None \<Rightarrow> st2)
          else
            st1\<lparr> patientName := [], phoneNo := [], uhid := [], isNewPatient := False,
                 age := [], gender := [] \<rparr>)"

datatype event =
    PatientsLoaded "Patient list"
  | MedicinesLoaded "Medicine list"
  | PatientSelect string "string option"
  | SetPhoneNo string
  | SetAge string
  | SetGender string
  | MedicineSelect string detailsFetch
  | SetQuantity string
  | SetDuration string
  | AddMedicine
  | RemoveMedicine nat
  | ClearAll
  | ConfirmClearAll
  | SetDiscount string
  | SetPaymentMode string
  | SetCashAmount string
  | SetUpiAmount string
  | SetPaymentComments string
  | ClearForm
  | Submit postResult

fun handle :: "event \<Rightarrow> state \<Rightarrow> state" where
  "handle (PatientsLoaded ps) st = st\<lparr> patients := ps \<rparr>"
| "handle (MedicinesLoaded ms) st = st\<lparr> medicines := ms \<rparr>"
| "handle (PatientSelect v gen) st = handlePatientSelect v gen st"
| "handle (SetPhoneNo v) st = st\<lparr> phoneNo := take 10 (filter isDigit v) \<rparr>"
| "handle (SetAge v) st = st\<lparr> age := v \<rparr>"
| "handle (SetGender v) st = st\<lparr> gender := v \<rparr>"
| "handle (MedicineSelect v fetch) st = handleMedicineSelect v fetch st"
| "handle (SetQuantity v) st = st\<lparr> quantity := v \<rparr>"
| "handle (SetDuration v) st = st\<lparr> duration := v \<rparr>"
| "handle AddMedicine st = fst (handleAddMedicine st)"
| "handle (RemoveMedicine i) st = handleRemoveMedicine i st"
| "handle ClearAll st = handleClearAll st"
| "handle ConfirmClearAll st = fst (confirmClearAll st)"
| "handle (SetDiscount v) st = st\<lparr> discount := v \<rparr>"
| "handle (SetPaymentMode v) st = st\<lparr> paymentMode := v \<rparr>"
| "handle (SetCashAmount v) st = st\<lparr> cashAmount := v \<rparr>"
| "handle (SetUpiAmount v) st = st\<lparr> upiAmount := v \<rparr>"
| "handle (SetPaymentComments v) st = st\<lparr> paymentComments := v \<rparr>"
| "handle ClearForm st = handleClearForm st"
| "handle (Submit res) st = fst (handleSubmit res st)"

definition step :: "event \<Rightarrow> state \<Rightarrow> state" where
  \<comment> \<open>one event: its handler, then the effects of the render that follows\<close>
  "step ev st = render st (handle ev st)"

fun run :: "event list \<Rightarrow> state \<Rightarrow> state" where
  \<comment> \<open>a sequence of events, from the state \<open>st\<close>\<close>
  "run [] st = st"
| "run (ev # evs) st = run evs (step ev st)"

fun assignedIds :: "event list \<Rightarrow> state \<Rightarrow> nat list" where
  \<comment> \<open>the ids given to the lines accepted along a run, in the order of acceptance\<close>
  "assignedIds [] st = []"
| "assignedIds (ev # evs) st =
     (if ev = AddMedicine \<and> snd (handleAddMedicine st) = None
      then (itemCounter st + 1) # assignedIds evs (step ev st)
      else assignedIds evs (step ev st))"

section \<open>Purchase entry: the \<^verbatim>\<open>Inventory\<close> component of \<^verbatim>\<open>ViewSales.tsx\<close>\<close>

text \<open>
  The fields that \<^verbatim>\<open>handleAddItem\<close> and \<^verbatim>\<open>handleUpdatePrice\<close> read or write. Names
  that the point of sale already uses carry the prefix \<open>inv_\<close> or \<open>purchase_\<close>.
  In the details of a medicine, \<open>None\<close> for a number stands for a value that is no
  number (\<^verbatim>\<open>NaN\<close>, or \<^verbatim>\<open>null\<close> or nothing in the response).
\<close>

record InventoryMedicineDetails =
  inv_MId :: int
  inv_MName :: string
  inv_MRP :: "real option"
  inv_PTR :: "real option"
  inv_MCompany :: string
  inv_MType :: string
  inv_CurrentStock :: real
  inv_GST :: "real option"
  inv_HSN :: "string option"

record PurchaseItem =
  purchase_id :: nat             \<comment> \<open>field \<^verbatim>\<open>id\<close>\<close>
  item_name :: string
  purchase_quantity :: "int option"   \<comment> \<open>field \<^verbatim>\<open>quantity\<close>, the result of \<^verbatim>\<open>parseInt\<close>\<close>
  batch_no :: string
  expiry_date :: string
  purchase_price :: real         \<comment> \<open>field \<^verbatim>\<open>price\<close>\<close>
  difference :: real

datatype message =
    SelectMedicineError    \<comment> \<open>type \<^verbatim>\<open>error\<close>, \<^verbatim>\<open>Please select a medicine\<close>\<close>
  | ValidQuantityError     \<comment> \<open>type \<^verbatim>\<open>error\<close>, \<^verbatim>\<open>Please enter a valid quantity\<close>\<close>
  | PriceUpdated string    \<comment> \<open>type \<^verbatim>\<open>success\<close>, \<^verbatim>\<open>Price updated for\<close> and the medicine's name\<close>

record inventoryState =
  inv_selectedMedicine :: string
  inv_medicineDetails :: "InventoryMedicineDetails option"
  inv_quantity :: string
  inv_batchNo :: string
  expiryDate :: string
  purchasePrice :: string
  items :: "PurchaseItem list"
  inv_itemCounter :: nat
  message :: "message option"
  showPriceUpdateConfirm :: bool
  showUpdatePriceModal :: bool
  updatingPrice :: bool
  updateMedicineName :: string

definition catalogMRP :: "inventoryState \<Rightarrow> real" where
  \<comment> \<open>\<^verbatim>\<open>medicineDetails?.MRP || 0\<close>\<close>
  "catalogMRP st = (case inv_medicineDetails st of None \<Rightarrow> 0 | Some d \<Rightarrow> orZero (inv_MRP d))"

definition handleAddItem :: "inventoryState \<Rightarrow> inventoryState" where
  "handleAddItem st =
     (if inv_selectedMedicine st = [] then st\<lparr> message := Some SelectMedicineError \<rparr>
      else if inv_quantity st = [] \<or> (case parseInt (inv_quantity st) of
                                          None \<Rightarrow> False | Some q \<Rightarrow> q \<le> 0)
        then st\<lparr> message := Some ValidQuantityError \<rparr>
      else
        (let price = orZero (parseFloat (purchasePrice st));
             mrp = catalogMRP st;
             difference = numSub mrp price;
             newItem = \<lparr> purchase_id = inv_itemCounter st + 1,
                         item_name = inv_selectedMedicine st,
                         purchase_quantity = parseInt (inv_quantity st),
                         batch_no = inv_batchNo st,
                         expiry_date = expiryDate st,
                         purchase_price = price,
                         difference = difference \<rparr>
         in st\<lparr> items := items st @ [newItem],
                inv_itemCounter := inv_itemCounter st + 1,
                inv_selectedMedicine := [],
                inv_medicineDetails := None,
                inv_quantity := [],
                inv_batchNo := [],
                expiryDate := [],
                purchasePrice := [],
                message := None \<rparr>))"

datatype effect =
    FetchMedicines   \<comment> \<open>the call \<^verbatim>\<open>fetchMedicines()\<close>, which reloads the list of medicines\<close>
  | ConsoleError     \<comment> \<open>a line on the developer console, which the operator does not see\<close>

datatype updateResult =
    UpdateReturned   \<comment> \<open>the request to \<^verbatim>\<open>/inventory/update-price\<close> returned\<close>
  | UpdateThrew      \<comment> \<open>it threw: a network error or an error status\<close>

definition handleUpdatePrice :: "updateResult \<Rightarrow> inventoryState \<Rightarrow> inventoryState \<times> effect list" where
  \<comment> \<open>the state once the handler has finished, and what it did besides, in order; the
      form data it posts is not part of the result\<close>
  "handleUpdatePrice res st =
     (let st1 = st\<lparr> showPriceUpdateConfirm := False, updatingPrice := True \<rparr> in
      case res of
        UpdateReturned \<Rightarrow>
          (st1\<lparr> message := Some (PriceUpdated (updateMedicineName st)),
                showUpdatePriceModal := False,
                updatingPrice := False \<rparr>, [FetchMedicines])
      | UpdateThrew \<Rightarrow>
          (st1\<lparr> message := Some (PriceUpdated (updateMedicineName st)),
                showUpdatePriceModal := False,
                updatingPrice := False \<rparr>, [ConsoleError, FetchMedicines]))"

section \<open>Predicates used in the statements\<close>

definition accepts :: "state \<Rightarrow> Medicine \<Rightarrow> int \<Rightarrow> bool" where
  \<comment> \<open>every guard of \<^verbatim>\<open>handleAddMedicine\<close> lets the candidate through, for the medicine
      found in the list and the quantity parsed\<close>
  "accepts st medicine q =
     (selectedMedicine st \<noteq> [] \<and> quantity st \<noteq> [] \<and>
      find (\<lambda>m. MName m = selectedMedicine st) (medicines st) = Some medicine \<and>
      parseInt (quantity st) = Some q \<and> 0 < q \<and> real_of_int q \<le> CurrentStock medicine)"






definition draft :: "state \<Rightarrow> BillItem list \<times> string \<times> string \<times> string \<times> string" where
  \<comment> \<open>the bill in progress: its lines, discount, payment mode, cash and UPI amounts\<close>
  "draft st = (billItems st, discount st, paymentMode st, cashAmount st, upiAmount st)"


definition sampleMedicines :: "Medicine list" where
  "sampleMedicines =
     [\<lparr> MId = 1, MName = ''Paracetamol'', MRP = 10, MCompany = ''Acme'',
        CurrentStock = 5, MType = ''Tablets'', BatchNo = None \<rparr>,
      \<lparr> MId = 2, MName = ''Amoxicillin'', MRP = 15, MCompany = ''Acme'',
        CurrentStock = 20, MType = ''Capsules'', BatchNo = None \<rparr>]"


definition scenarioState :: state where
  "scenarioState =
     \<lparr> showClearConfirm = False, patients = [], selectedPatient = [], patientName = [],
       phoneNo = [], uhid = [], age = [], gender = [], isNewPatient = False,
       medicines = sampleMedicines, selectedMedicine = [], medicineDetails = None,
       quantity = [], duration = [], batchNo = ''-'', currentStock = None,
       billItems =
         [\<lparr> item_id = 1, name = ''Paracetamol'', batch = ''-'', qty = 2, price = 10,
            item_duration = ''-'', total = 20, mid = 1 \<rparr>,
          \<lparr> item_id = 2, name = ''Amoxicillin'', batch = ''-'', qty = 3, price = 15,
            item_duration = ''-'', total = 45, mid = 2 \<rparr>],
       itemCounter = 2, discount = ''5.00'', paymentMode = [], cashAmount = [],
       upiAmount = [], paymentComments = [], submitting = False, submitMessage = None \<rparr>"

definition stockState :: "string \<Rightarrow> state" where
  \<comment> \<open>Paracetamol, of which 5 are in stock, is selected and the quantity field holds \<open>v\<close>\<close>
  "stockState v = initialState\<lparr> medicines := sampleMedicines,
                               selectedMedicine := ''Paracetamol'', quantity := v \<rparr>"

definition paracetamol :: Medicine where
  "paracetamol = \<lparr> MId = 1, MName = ''Paracetamol'', MRP = 10, MCompany = ''Acme'',
        CurrentStock = 5, MType = ''Tablets'', BatchNo = None \<rparr>"

definition fractionalState :: state where "fractionalState = stockState ''2.5''"

definition amoxicillin :: Medicine where
  "amoxicillin = \<lparr> MId = 2, MName = ''Amoxicillin'', MRP = 15, MCompany = ''Acme'',
        CurrentStock = 20, MType = ''Capsules'', BatchNo = None \<rparr>"

definition idsBelow :: "state \<Rightarrow> bool" where
  \<comment> \<open>no line has an id above the counter, and the ids increase along the sequence\<close>
  "idsBelow st = (list_all (\<lambda>item. item_id item \<le> itemCounter st) (billItems st)
                  \<and> sorted_wrt (<) (map item_id (billItems st)))"

definition removalScenario :: "event list" where
  \<comment> \<open>three lines are added, the second is removed, and a fourth candidate is entered\<close>
  "removalScenario =
     [MedicinesLoaded sampleMedicines,
      MedicineSelect ''Paracetamol'' DetailsNone, SetQuantity ''1'', AddMedicine,
      MedicineSelect ''Amoxicillin'' DetailsNone, SetQuantity ''2'', AddMedicine,
      MedicineSelect ''Paracetamol'' DetailsNone, SetQuantity ''2'', AddMedicine,
      RemoveMedicine 2,
      MedicineSelect ''Amoxicillin'' DetailsNone, SetQuantity ''4'']"

definition removalState :: state where
  "removalState =
     \<lparr> showClearConfirm = False, patients = [], selectedPatient = [], patientName = [],
       phoneNo = [], uhid = [], age = [], gender = [], isNewPatient = False,
       medicines = sampleMedicines, selectedMedicine = ''Amoxicillin'', medicineDetails = None,
       quantity = ''4'', duration = [], batchNo = ''-'', currentStock = Some 20,
       billItems =
         [\<lparr> item_id = 1, name = ''Paracetamol'', batch = ''-'', qty = 1, price = 10,
            item_duration = ''-'', total = 10, mid = 1 \<rparr>,
          \<lparr> item_id = 3, name = ''Paracetamol'', batch = ''-'', qty = 2, price = 10,
            item_duration = ''-'', total = 20, mid = 1 \<rparr>],
       itemCounter = 3, discount = [], paymentMode = [], cashAmount = [],
       upiAmount = [], paymentComments = [], submitting = False, submitMessage = None \<rparr>"

definition succeeded :: "postResult \<Rightarrow> bool" where
  \<comment> \<open>the server answered, and with \<^verbatim>\<open>success\<close>\<close>
  "succeeded res = (case res of Resolved r \<Rightarrow> success r | Rejected m \<Rightarrow> False)"

definition payState :: "string \<Rightarrow> string \<Rightarrow> string \<Rightarrow> state" where
  \<comment> \<open>the bill of \<open>scenarioState\<close>, 60.00 to pay, for a patient, with a payment mode and
      the two amount fields\<close>
  "payState mode cash upi =
     scenarioState\<lparr> patientName := ''Asha'', paymentMode := mode,
                     cashAmount := cash, upiAmount := upi \<rparr>"

definition serverOk :: postResult where
  \<comment> \<open>the server created the invoice\<close>
  "serverOk = Resolved \<lparr> success = True, invoice_id = ''INV1'', final_amount = Some 60,
                          error = None \<rparr>"

definition networkError :: postResult where
  \<comment> \<open>the request threw an \<^verbatim>\<open>Error\<close> with this message\<close>
  "networkError = Rejected (Some ''Network Error'')"



definition addItemGuards :: "inventoryState \<Rightarrow> bool" where
  \<comment> \<open>both guards of \<^verbatim>\<open>handleAddItem\<close> let the item through: a medicine is selected, and
      the quantity field is not empty and does not read as an integer that is zero or
      negative\<close>
  "addItemGuards st =
     (inv_selectedMedicine st \<noteq> [] \<and> inv_quantity st \<noteq> [] \<and>
      (case parseInt (inv_quantity st) of None \<Rightarrow> True | Some q \<Rightarrow> 0 < q))"

definition enteredPrice :: "inventoryState \<Rightarrow> real" where
  \<comment> \<open>\<^verbatim>\<open>parseFloat(purchasePrice) || 0\<close>\<close>
  "enteredPrice st = orZero (parseFloat (purchasePrice st))"

definition purchaseEntry :: "real option \<Rightarrow> string \<Rightarrow> inventoryState" where
  \<comment> \<open>an entry of ten units of a medicine whose details carry the MRP \<open>m\<close>, at the
      purchase price written in \<open>p\<close>\<close>
  "purchaseEntry m p =
     \<lparr> inv_selectedMedicine = ''Paracetamol'',
       inv_medicineDetails =
         Some \<lparr> inv_MId = 1, inv_MName = ''Paracetamol'', inv_MRP = m, inv_PTR = None,
                inv_MCompany = ''Acme'', inv_MType = ''Tablets'', inv_CurrentStock = 5,
                inv_GST = None, inv_HSN = None \<rparr>,
       inv_quantity = ''10'', inv_batchNo = ''B1'', expiryDate = ''2027-01-01'',
       purchasePrice = p, items = [], inv_itemCounter = 0, message = None,
       showPriceUpdateConfirm = False, showUpdatePriceModal = False, updatingPrice = False,
       updateMedicineName = [] \<rparr>"

section \<open>The rounding of numbers\<close>

lemma bitLength_numeral:
  "bitLength (numeral k) = Suc (bitLength (numeral k div 2))"
  by (subst bitLength.simps) simp

lemma bitLength_0: "bitLength 0 = 0" by (subst bitLength.simps) simp

lemma bitLength_1: "bitLength (Suc 0) = 1" by (subst bitLength.simps) (simp add: bitLength_0)

lemma bitLength_upper: "n < 2 ^ bitLength n"
proof (induction n rule: bitLength.induct)
  case (1 n)
  show ?case
  proof (cases "n = 0")
    case True
    then show ?thesis by simp
  next
    case False
    then have "n div 2 < 2 ^ bitLength (n div 2)" using 1 by simp
    then have "n < 2 * 2 ^ bitLength (n div 2)" by linarith
    then show ?thesis using False by (subst bitLength.simps) simp
  qed
qed

lemma bitLength_lower: "0 < n \<Longrightarrow> 2 ^ bitLength n \<le> 2 * n"
proof (induction n rule: bitLength.induct)
  case (1 n)
  show ?case
  proof (cases "n div 2 = 0")
    case True
    then have "n = 1" using 1 by linarith
    then show ?thesis by (simp add: bitLength_1)
  next
    case False
    then have "2 ^ bitLength (n div 2) \<le> 2 * (n div 2)" using 1 by simp
    also have "\<dots> \<le> n" by simp
    finally show ?thesis using 1(2) by (subst bitLength.simps) simp
  qed
qed

lemma bitLength_pos: "0 < n \<Longrightarrow> 0 < bitLength n"
  by (subst bitLength.simps) simp

lemma real_pow_le: "(2::nat) ^ k \<le> n \<Longrightarrow> (2::real) ^ k \<le> real n"
proof -
  assume "(2::nat) ^ k \<le> n"
  then have "real (2 ^ k) \<le> real n" by (simp only: of_nat_le_iff)
  then show ?thesis by simp
qed

lemma real_succ_le: "n + 1 \<le> (2::nat) ^ k \<Longrightarrow> real n + 1 \<le> 2 ^ k"
proof -
  assume "n + 1 \<le> (2::nat) ^ k"
  then have "real (n + 1) \<le> real (2 ^ k)" by (simp only: of_nat_le_iff)
  then show ?thesis by simp
qed

lemma floor_nat_bounds:
  "1 \<le> x \<Longrightarrow> real (nat \<lfloor>x\<rfloor>) \<le> x \<and> x < real (nat \<lfloor>x\<rfloor>) + 1 \<and> 0 < nat \<lfloor>x\<rfloor>"
  by (simp add: of_nat_nat)

lemma ceiling_nat_bounds:
  assumes "0 < x" and "x < 1"
  shows "real (nat (\<lceil>1 / x\<rceil> - 1)) < 1 / x \<and> 1 / x \<le> real (nat (\<lceil>1 / x\<rceil> - 1)) + 1
         \<and> 0 < nat (\<lceil>1 / x\<rceil> - 1)"
proof -
  have "1 < 1 / x" using assms by simp
  then have c2: "2 \<le> \<lceil>1 / x\<rceil>" by linarith
  then have "0 \<le> \<lceil>1 / x\<rceil> - 1" by linarith
  then have "real (nat (\<lceil>1 / x\<rceil> - 1)) = real_of_int (\<lceil>1 / x\<rceil> - 1)"
    by (rule of_nat_nat)
  then have r: "real (nat (\<lceil>1 / x\<rceil> - 1)) = real_of_int \<lceil>1 / x\<rceil> - 1" by simp
  have "real_of_int \<lceil>1 / x\<rceil> - 1 < 1 / x" "1 / x \<le> real_of_int \<lceil>1 / x\<rceil>" by linarith+
  moreover have "0 < nat (\<lceil>1 / x\<rceil> - 1)" using c2 by linarith
  ultimately show ?thesis unfolding r by linarith
qed

lemma pow2_neg_lower:
  assumes "real j + 1 \<le> 2 ^ b" and "1 / x \<le> real j + 1" and x: "0 < x"
  shows "2 powi (- int b) \<le> x"
proof -
  have "1 / x \<le> 2 ^ b" using assms by linarith
  then have "1 \<le> x * 2 ^ b" using x by (simp add: field_simps)
  then have "1 / 2 ^ b \<le> x" by (simp add: field_simps)
  then show ?thesis by (simp add: power_int_minus_divide)
qed

lemma pow2_neg_upper:
  assumes "(2::real) ^ (b - 1) \<le> real j" and "real j < 1 / x" and x: "0 < x" and b: "0 < b"
  shows "x < 2 powi (- int b + 1)"
proof -
  have "2 ^ (b - 1) < 1 / x" using assms by linarith
  then have "x * 2 ^ (b - 1) < 1" using x by (simp add: field_simps)
  then have "x < 1 / 2 ^ (b - 1)" by (simp add: field_simps)
  moreover have "- int b + 1 = - int (b - 1)" using b by simp
  ultimately show ?thesis by (simp only: power_int_minus_divide power_int_of_nat)
qed

lemma exponentOf_bounds:
  assumes "0 < x"
  shows "2 powi exponentOf x \<le> x \<and> x < 2 powi (exponentOf x + 1)"
proof (cases "1 \<le> x")
  case True
  define n where "n = nat \<lfloor>x\<rfloor>"
  have nx: "real n \<le> x" "x < real n + 1" and n1: "0 < n"
    using floor_nat_bounds [OF True] by (simp_all add: n_def)
  define b where "b = bitLength n"
  have e: "exponentOf x = int b - 1" using True by (simp add: exponentOf_def n_def b_def)
  have b: "0 < b" unfolding b_def using n1 by (rule bitLength_pos)
  have "2 ^ b \<le> 2 * n" unfolding b_def using n1 by (rule bitLength_lower)
  then have "(2::nat) ^ (b - 1) \<le> n" using b by (cases b) simp_all
  then have r: "(2::real) ^ (b - 1) \<le> real n" by (rule real_pow_le)
  have "int b - 1 = int (b - 1)" using b by simp
  then have p: "(2::real) powi (int b - 1) = 2 ^ (b - 1)" by (simp only: power_int_of_nat)
  have lo: "2 powi (int b - 1) \<le> x" unfolding p using r nx by linarith
  have "n + 1 \<le> 2 ^ b" unfolding b_def using bitLength_upper [of n] by simp
  then have "real n + 1 \<le> 2 ^ b" by (rule real_succ_le)
  moreover have "(2::real) powi (int b - 1 + 1) = 2 ^ b" by simp
  ultimately have hi: "x < 2 powi (int b - 1 + 1)" using nx by linarith
  show ?thesis unfolding e using lo hi by (rule conjI)
next
  case False
  define j where "j = nat (\<lceil>1 / x\<rceil> - 1)"
  have x1: "x < 1" using False by simp
  have jx: "real j < 1 / x" "1 / x \<le> real j + 1" and j1: "0 < j"
    using ceiling_nat_bounds [OF assms x1] by (simp_all add: j_def)
  define b where "b = bitLength j"
  have e: "exponentOf x = - int b" using False by (simp add: exponentOf_def j_def b_def)
  have b: "0 < b" unfolding b_def using j1 by (rule bitLength_pos)
  have "j + 1 \<le> 2 ^ b" unfolding b_def using bitLength_upper [of j] by simp
  then have "real j + 1 \<le> 2 ^ b" by (rule real_succ_le)
  then have lo: "2 powi (- int b) \<le> x" using jx(2) assms by (rule pow2_neg_lower)
  have "2 ^ b \<le> 2 * j" unfolding b_def using j1 by (rule bitLength_lower)
  then have "(2::nat) ^ (b - 1) \<le> j" using b by (cases b) simp_all
  then have "(2::real) ^ (b - 1) \<le> real j" by (rule real_pow_le)
  then have hi: "x < 2 powi (- int b + 1)" using jx(1) assms b by (rule pow2_neg_upper)
  show ?thesis unfolding e using lo hi by (rule conjI)
qed

lemma pow2_less_iff: "((2::real) powi a < 2 powi b) = (a < b)"
proof
  assume l: "(2::real) powi a < 2 powi b"
  show "a < b"
  proof (rule ccontr)
    assume "\<not> a < b"
    then have "b \<le> a" by simp
    then have "(2::real) powi b \<le> 2 powi a" by (rule power_int_increasing) simp
    then show False using l by simp
  qed
next
  assume "a < b"
  then show "(2::real) powi a < 2 powi b" by (rule power_int_strict_increasing) simp
qed


lemma exponent_unique:
  assumes "2 powi e \<le> (x::real)" "x < 2 powi (e + 1)" "2 powi e' \<le> x" "x < 2 powi (e' + 1)"
  shows "e = (e' :: int)"
proof -
  have "(2::real) powi e < 2 powi (e' + 1)" using assms by linarith
  then have a: "e < e' + 1" by (simp only: pow2_less_iff)
  have "(2::real) powi e' < 2 powi (e + 1)" using assms by linarith
  then have b: "e' < e + 1" by (simp only: pow2_less_iff)
  show ?thesis using a b by simp
qed

lemma exponentOf_eq:
  "2 powi e \<le> (x::real) \<Longrightarrow> x < 2 powi (e + 1) \<Longrightarrow> exponentOf x = e"
proof -
  assume a: "2 powi e \<le> x" "x < 2 powi (e + 1)"
  have "0 < (2::real) powi e" by simp
  then have "0 < x" using a by linarith
  from exponentOf_bounds [OF this] have "2 powi exponentOf x \<le> x" "x < 2 powi (exponentOf x + 1)"
    by simp_all
  then show ?thesis using a by (rule exponent_unique)
qed

lemma roundHalfEven_floor: "\<lfloor>y\<rfloor> \<le> roundHalfEven y \<and> roundHalfEven y \<le> \<lfloor>y\<rfloor> + 1"
  by (simp add: roundHalfEven_def Let_def)

lemma roundHalfEven_near: "\<bar>real_of_int (roundHalfEven y) - y\<bar> \<le> 1 / 2"
proof -
  have "real_of_int \<lfloor>y\<rfloor> \<le> y" "y < real_of_int \<lfloor>y\<rfloor> + 1" by linarith+
  then show ?thesis by (auto simp: roundHalfEven_def Let_def)
qed

lemma roundHalfEven_of_int [simp]: "roundHalfEven (real_of_int k) = k"
  by (simp add: roundHalfEven_def)

lemma roundHalfEven_ge: "real_of_int k \<le> y \<Longrightarrow> k \<le> roundHalfEven y"
proof -
  assume "real_of_int k \<le> y"
  then have "k \<le> \<lfloor>y\<rfloor>" by (simp add: le_floor_iff)
  then show ?thesis using roundHalfEven_floor [of y] by linarith
qed

lemma roundHalfEven_le: "y \<le> real_of_int k \<Longrightarrow> roundHalfEven y \<le> k"
proof (cases "y = real_of_int k")
  case True
  then show ?thesis by simp
next
  case False
  assume "y \<le> real_of_int k"
  then have "y < real_of_int k" using False by simp
  then have "\<lfloor>y\<rfloor> < k" by (simp add: floor_less_iff)
  then show ?thesis using roundHalfEven_floor [of y] by linarith
qed


lemma toDouble_zero [simp]: "toDouble 0 = 0"
  by (simp add: toDouble_def)

lemma toDouble_minus: "toDouble (- x) = - toDouble x"
  by (simp add: toDouble_def Let_def sgn_minus)

lemma toDouble_pos:
  assumes "0 < x"
  defines "e \<equiv> exponentOf x"
  defines "u \<equiv> 2 powi (e - 52)"
  defines "m \<equiv> roundHalfEven (x / u)"
  shows "toDouble x = real_of_int m * u" and "2 ^ 52 \<le> m" and "m \<le> 2 ^ 53"
    and "2 powi e \<le> toDouble x" and "toDouble x \<le> 2 powi (e + 1)"
proof -
  have u0: "0 < u" by (simp add: u_def)
  have pe: "2 powi e = 2 ^ 52 * u" "2 powi (e + 1) = 2 ^ 53 * u"
    by (simp_all add: u_def power_int_diff power_int_add)
  have b: "2 powi e \<le> x" "x < 2 powi (e + 1)"
    using exponentOf_bounds [OF assms(1)] by (simp_all add: e_def)
  have y: "2 ^ 52 \<le> x / u" "x / u \<le> 2 ^ 53"
    using b u0 unfolding pe by (simp_all add: field_simps)
  show t: "toDouble x = real_of_int m * u"
    using assms(1) by (simp add: toDouble_def Let_def e_def u_def m_def)
  have "real_of_int (2 ^ 52) \<le> x / u" using y by simp
  then show m1: "2 ^ 52 \<le> m" unfolding m_def by (rule roundHalfEven_ge)
  have "x / u \<le> real_of_int (2 ^ 53)" using y by simp
  then show m2: "m \<le> 2 ^ 53" unfolding m_def by (rule roundHalfEven_le)
  have "(2::real) ^ 52 \<le> real_of_int m" using m1 by (metis of_int_le_iff of_int_numeral of_int_power)
  then show "2 powi e \<le> toDouble x" unfolding t pe using u0 by simp
  have "real_of_int m \<le> 2 ^ 53" using m2 by (metis of_int_le_iff of_int_numeral of_int_power)
  then show "toDouble x \<le> 2 powi (e + 1)" unfolding t pe using u0 by simp
qed

lemma toDouble_pos_iff [simp]: "(0 < toDouble x) = (0 < x)"
proof (cases "0 < x")
  case True
  have "0 < (2::real) powi exponentOf x" by simp
  then show ?thesis using toDouble_pos(4) [OF True] True by linarith
next
  case False
  show ?thesis
  proof (cases "x = 0")
    case True
    then show ?thesis by simp
  next
    case f: False
    then have p: "0 < - x" using False by simp
    have "0 < (2::real) powi exponentOf (- x)" by simp
    then have "0 < toDouble (- x)" using toDouble_pos(4) [OF p] by linarith
    then show ?thesis using False by (simp add: toDouble_minus)
  qed
qed

lemma toDouble_neg_iff [simp]: "(toDouble x < 0) = (x < 0)"
  using toDouble_pos_iff [of "- x"] by (simp add: toDouble_minus)

lemma toDouble_eq_0_iff [simp]: "(toDouble x = 0) = (x = 0)"
  using toDouble_pos_iff [of x] toDouble_neg_iff [of x] by linarith

lemma toDouble_representable:
  assumes "2 ^ 52 \<le> k" and "k < 2 ^ 53"
  shows "toDouble (real_of_int k * 2 powi (e - 52)) = real_of_int k * 2 powi (e - 52)"
proof -
  define u :: real where "u = 2 powi (e - 52)"
  define z where "z = real_of_int k * u"
  have u0: "0 < u" by (simp add: u_def)
  have pe: "2 powi e = 2 ^ 52 * u" "2 powi (e + 1) = 2 ^ 53 * u"
    by (simp_all add: u_def power_int_diff power_int_add)
  have k1: "(2::real) ^ 52 \<le> real_of_int k"
    using assms(1) by (metis of_int_le_iff of_int_numeral of_int_power)
  have k2: "real_of_int k < 2 ^ 53"
    using assms(2) by (metis of_int_less_iff of_int_numeral of_int_power)
  have lo: "2 powi e \<le> z" unfolding pe z_def using k1 u0 by simp
  have hi: "z < 2 powi (e + 1)" unfolding pe z_def using k2 u0 by simp
  have ez: "exponentOf z = e" using lo hi by (rule exponentOf_eq)
  have "0 < (2::real) powi e" by simp
  then have z0: "0 < z" using lo by linarith
  have "z / u = real_of_int k" using u0 by (simp add: z_def)
  then have "toDouble z = real_of_int k * u"
    using toDouble_pos(1) [OF z0] unfolding ez u_def [symmetric] by simp
  then show ?thesis by (simp add: z_def u_def)
qed

lemma toDouble_idem_pos:
  assumes "0 < x"
  shows "toDouble (toDouble x) = toDouble x"
proof -
  define e where "e = exponentOf x"
  define m where "m = roundHalfEven (x / 2 powi (e - 52))"
  have t: "toDouble x = real_of_int m * 2 powi (e - 52)" and m1: "2 ^ 52 \<le> m" and m2: "m \<le> 2 ^ 53"
    using toDouble_pos(1-3) [OF assms] by (simp_all add: e_def m_def)
  show ?thesis
  proof (cases "m = 2 ^ 53")
    case False
    then have "m < 2 ^ 53" using m2 by simp
    then show ?thesis unfolding t using m1 by (simp add: toDouble_representable)
  next
    case True
    have "real_of_int m * 2 powi (e - 52) = real_of_int (2 ^ 52) * 2 powi (e + 1 - 52)"
      unfolding True by (simp add: power_int_diff power_int_add)
    moreover have "toDouble (real_of_int (2 ^ 52) * 2 powi (e + 1 - 52))
                     = real_of_int (2 ^ 52) * 2 powi (e + 1 - 52)"
      by (rule toDouble_representable) simp_all
    ultimately show ?thesis unfolding t by simp
  qed
qed

lemma toDouble_idem [simp]: "toDouble (toDouble x) = toDouble x"
proof (cases "0 < x")
  case True
  then show ?thesis by (rule toDouble_idem_pos)
next
  case False
  show ?thesis
  proof (cases "x = 0")
    case True
    then show ?thesis by simp
  next
    case f: False
    then have "0 < - x" using False by simp
    then have "toDouble (toDouble (- x)) = toDouble (- x)" by (rule toDouble_idem_pos)
    then show ?thesis by (simp add: toDouble_minus)
  qed
qed



lemma toDouble_error:
  assumes "0 < x"
  shows "\<bar>toDouble x - x\<bar> \<le> x / 2 ^ 53"
proof -
  define u :: real where "u = 2 powi (exponentOf x - 52)"
  define m where "m = roundHalfEven (x / u)"
  have u0: "0 < u" by (simp add: u_def)
  have t: "toDouble x = real_of_int m * u"
    using toDouble_pos(1) [OF assms] by (simp add: u_def m_def)
  have "2 powi exponentOf x = 2 ^ 52 * u" by (simp add: u_def power_int_diff)
  then have ux: "2 ^ 52 * u \<le> x" using exponentOf_bounds [OF assms] by simp
  have "\<bar>real_of_int m - x / u\<bar> \<le> 1 / 2" unfolding m_def by (rule roundHalfEven_near)
  then have "\<bar>real_of_int m - x / u\<bar> * u \<le> 1 / 2 * u" using u0 by (simp only: mult_le_cancel_right_pos)
  moreover have "\<bar>real_of_int m - x / u\<bar> * u = \<bar>real_of_int m * u - x\<bar>"
  proof -
    have "(real_of_int m - x / u) * u = real_of_int m * u - x"
      using u0 by (simp add: left_diff_distrib)
    moreover have "\<bar>real_of_int m - x / u\<bar> * u = \<bar>(real_of_int m - x / u) * u\<bar>"
      using u0 by (simp add: abs_mult)
    ultimately show ?thesis by simp
  qed
  ultimately have "\<bar>toDouble x - x\<bar> \<le> u / 2" unfolding t by simp
  moreover have "u / 2 \<le> x / 2 ^ 53" using ux by simp
  ultimately show ?thesis by linarith
qed

lemma toDouble_error_abs: "\<bar>toDouble x - x\<bar> \<le> \<bar>x\<bar> / 2 ^ 53"
proof -
  consider "0 < x" | "x = 0" | "x < 0" by linarith
  then show ?thesis
  proof cases
    case 1
    then show ?thesis using toDouble_error [OF 1] by simp
  next
    case 2
    then show ?thesis by simp
  next
    case 3
    then have p: "0 < - x" by simp
    have "\<bar>toDouble x - x\<bar> = \<bar>toDouble (- x) - (- x)\<bar>"
      unfolding toDouble_minus by linarith
    also have "\<dots> \<le> (- x) / 2 ^ 53" by (rule toDouble_error [OF p])
    also have "\<dots> = \<bar>x\<bar> / 2 ^ 53" using 3 by simp
    finally show ?thesis .
  qed
qed


section \<open>Evaluation of the primitives\<close>

lemmas js_defs = isWhiteSpace_def isDigit_def digitVal_def isHexDigit_def hexVal_def
  decDigits_def hexDigits_def trimStart_def trim_def parseInt_def exponentPart_def scale10_def
  parseFloat_def orZero_def digitChar_def toFixed2_def phoneOk_def orDash_def
  exponentOf_def roundHalfEven_def toDouble_def numAdd_def numSub_def numMul_def tolerance_def
  bitLength_numeral bitLength_0 bitLength_1 Let_def


lemma natDigits_0: "natDigits 0 = ''0''"
  by (simp add: natDigits.simps digitChar_def)


lemmas model_defs = step_def render_def paymentModeEffect_def handleAddMedicine_def
  handleMedicineSelect_def handleRemoveMedicine_def handleClearAll_def confirmClearAll_def
  handleClearForm_def newItem_def finalAmount_def grandTotal_def discountValue_def
  initialState_def sampleMedicines_def


section \<open>What one event does to the lines and to the counter\<close>




lemma parseFloat_double: "parseFloat s = Some d \<Longrightarrow> toDouble d = d"
  by (auto simp: parseFloat_def Let_def toDouble_minus split: if_splits)

lemma orZero_parseFloat_double: "toDouble (orZero (parseFloat s)) = orZero (parseFloat s)"
  by (cases "parseFloat s") (simp_all add: orZero_def parseFloat_double)



lemma handleAddMedicine_accepts:
  "accepts st medicine q \<Longrightarrow>
   handleAddMedicine st =
     (st\<lparr> billItems := billItems st @ [newItem st medicine q],
          itemCounter := itemCounter st + 1, selectedMedicine := [], quantity := [],
          duration := [], batchNo := ''-'', medicineDetails := None, currentStock := None \<rparr>,
      None)"
  by (simp add: accepts_def handleAddMedicine_def)

lemma handleAddMedicine_rejects:
  "\<not> (\<exists>medicine q. accepts st medicine q) \<Longrightarrow>
   fst (handleAddMedicine st) = st \<and> snd (handleAddMedicine st) \<noteq> None"
  by (auto simp: accepts_def handleAddMedicine_def split: option.splits)

lemma handleAddMedicine_None_iff:
  "snd (handleAddMedicine st) = None \<longleftrightarrow> (\<exists>medicine q. accepts st medicine q)"
  using handleAddMedicine_rejects [of st] handleAddMedicine_accepts [of st] by fastforce

lemma billItems_paymentModeEffect [simp]: "billItems (paymentModeEffect st) = billItems st"
  by (simp add: paymentModeEffect_def)

lemma itemCounter_paymentModeEffect [simp]: "itemCounter (paymentModeEffect st) = itemCounter st"
  by (simp add: paymentModeEffect_def)

lemma discount_paymentModeEffect [simp]: "discount (paymentModeEffect st) = discount st"
  by (simp add: paymentModeEffect_def)

lemma billItems_render [simp]: "billItems (render prev st) = billItems st"
  by (simp add: render_def)

lemma itemCounter_render [simp]: "itemCounter (render prev st) = itemCounter st"
  by (simp add: render_def)

lemma billItems_handleSubmit:
  "billItems (fst (handleSubmit res st)) = billItems st \<or>
   billItems (fst (handleSubmit res st)) = []"
  by (simp add: handleSubmit_def handleClearForm_def Let_def
           split: option.splits postResult.splits)

lemma itemCounter_handleSubmit [simp]: "itemCounter (fst (handleSubmit res st)) = itemCounter st"
  by (simp add: handleSubmit_def handleClearForm_def Let_def
           split: option.splits postResult.splits)

lemma filter_same: "\<exists>P. xs = filter P xs"
  by (rule exI [of _ "\<lambda>_. True"]) simp

lemma filter_none: "\<exists>P. [] = filter P xs"
  by (rule exI [of _ "\<lambda>_. False"]) simp

lemma billItems_handle_other:
  "\<not> (ev = AddMedicine \<and> snd (handleAddMedicine st) = None) \<Longrightarrow>
   itemCounter (handle ev st) = itemCounter st \<and>
   (\<exists>P. billItems (handle ev st) = filter P (billItems st))"
proof (cases ev)
  case AddMedicine
  assume "\<not> (ev = AddMedicine \<and> snd (handleAddMedicine st) = None)"
  with AddMedicine have "\<not> (\<exists>medicine q. accepts st medicine q)"
    by (simp add: handleAddMedicine_None_iff)
  then have "fst (handleAddMedicine st) = st" by (simp add: handleAddMedicine_rejects)
  then show ?thesis using AddMedicine by (simp add: filter_same)
next
  case (RemoveMedicine i)
  then show ?thesis by (auto simp: handleRemoveMedicine_def)
next
  case ClearAll
  then show ?thesis by (simp add: handleClearAll_def filter_same)
next
  case ConfirmClearAll
  then show ?thesis by (simp add: confirmClearAll_def filter_none)
next
  case ClearForm
  then show ?thesis by (simp add: handleClearForm_def filter_none)
next
  case (Submit res)
  show ?thesis using Submit billItems_handleSubmit [of res st]
    by (auto simp: filter_same filter_none)
next
  case (PatientSelect v gen)
  then show ?thesis
    by (simp add: handlePatientSelect_def Let_def filter_same split: option.splits)
next
  case (MedicineSelect v fetch)
  then show ?thesis
    by (simp add: handleMedicineSelect_def Let_def filter_same
             split: option.splits detailsFetch.splits)
qed (simp_all add: filter_same)

lemma step_other:
  "\<not> (ev = AddMedicine \<and> snd (handleAddMedicine st) = None) \<Longrightarrow>
   itemCounter (step ev st) = itemCounter st \<and>
   (\<exists>P. billItems (step ev st) = filter P (billItems st))"
  using billItems_handle_other [of ev st] by (simp add: step_def)

lemma step_add:
  "accepts st medicine q \<Longrightarrow>
   itemCounter (step AddMedicine st) = itemCounter st + 1 \<and>
   billItems (step AddMedicine st) = billItems st @ [newItem st medicine q]"
  by (simp add: step_def handleAddMedicine_accepts)




lemma tolerance_value: "tolerance = 5764607523034235 / 576460752303423488"
  by (simp add: js_defs)

lemma split_check_sound:
  assumes "\<bar>numSub (numAdd c u) f\<bar> \<le> tolerance"
  shows "\<bar>c + u - f\<bar> \<le> 1 / 100 + (\<bar>c + u\<bar> + 1) / 2 ^ 53"
proof -
  define S where "S = toDouble (c + u)"
  define a where "a = \<bar>S - f\<bar>"
  have e1: "\<bar>S - (c + u)\<bar> \<le> \<bar>c + u\<bar> / 2 ^ 53"
    unfolding S_def by (rule toDouble_error_abs)
  have e2: "\<bar>toDouble (S - f) - (S - f)\<bar> \<le> a / 2 ^ 53"
    unfolding a_def by (rule toDouble_error_abs)
  have d: "\<bar>toDouble (S - f)\<bar> \<le> 5764607523034235 / 576460752303423488"
    using assms by (simp add: numSub_def numAdd_def S_def tolerance_value)
  have "a \<le> \<bar>toDouble (S - f)\<bar> + \<bar>toDouble (S - f) - (S - f)\<bar>"
    unfolding a_def by linarith
  then have "a \<le> 5764607523034235 / 576460752303423488 + a / 2 ^ 53"
    using d e2 by linarith
  then have a: "a \<le> 1 / 100 + 1 / 2 ^ 53" by simp
  have "\<bar>c + u - f\<bar> \<le> a + \<bar>S - (c + u)\<bar>" unfolding a_def by linarith
  then have "\<bar>c + u - f\<bar> \<le> 1 / 100 + 1 / 2 ^ 53 + \<bar>c + u\<bar> / 2 ^ 53"
    using a e1 by linarith
  then show ?thesis by (simp add: add_divide_distrib)
qed


section \<open>The counter and the ids of the lines\<close>

lemma sorted_wrt_filter_map:
  "sorted_wrt (<) (map f xs) \<Longrightarrow> sorted_wrt (<) (map f (filter P xs))"
  by (induction xs) auto

lemma idsBelow_step: "idsBelow st \<Longrightarrow> idsBelow (step ev st)"
proof (cases "ev = AddMedicine \<and> snd (handleAddMedicine st) = None")
  case True
  assume inv: "idsBelow st"
  from True obtain medicine q where "accepts st medicine q"
    by (auto simp: handleAddMedicine_None_iff)
  then have "itemCounter (step ev st) = itemCounter st + 1"
    and "billItems (step ev st) = billItems st @ [newItem st medicine q]"
    using True step_add by simp_all
  then show ?thesis using inv
    by (auto simp: idsBelow_def list_all_iff sorted_wrt_append newItem_def)
next
  case False
  assume inv: "idsBelow st"
  from step_other [OF False] obtain P where "itemCounter (step ev st) = itemCounter st"
    and "billItems (step ev st) = filter P (billItems st)"
    by blast
  then show ?thesis using inv
    by (auto simp: idsBelow_def list_all_iff sorted_wrt_filter_map)
qed

lemma itemCounter_step_mono: "itemCounter st \<le> itemCounter (step ev st)"
proof (cases "ev = AddMedicine \<and> snd (handleAddMedicine st) = None")
  case True
  then obtain medicine q where "accepts st medicine q"
    by (auto simp: handleAddMedicine_None_iff)
  then show ?thesis using True step_add by simp
next
  case False
  then show ?thesis using step_other by simp
qed

lemma itemCounter_run_mono: "itemCounter st \<le> itemCounter (run evs st)"
proof (induction evs arbitrary: st)
  case Nil
  show ?case by simp
next
  case (Cons ev evs)
  have "itemCounter st \<le> itemCounter (step ev st)" by (rule itemCounter_step_mono)
  also have "\<dots> \<le> itemCounter (run evs (step ev st))" by (rule Cons.IH)
  finally show ?case by simp
qed

lemma idsBelow_run: "idsBelow st \<Longrightarrow> idsBelow (run evs st)"
  by (induction evs arbitrary: st) (simp_all add: idsBelow_step)

lemma assignedIds_bounds:
  "i \<in> set (assignedIds evs st) \<Longrightarrow> itemCounter st < i \<and> i \<le> itemCounter (run evs st)"
proof (induction evs arbitrary: st)
  case Nil
  then show ?case by simp
next
  case (Cons ev evs)
  show ?case
  proof (cases "ev = AddMedicine \<and> snd (handleAddMedicine st) = None")
    case True
    then obtain medicine q where "accepts st medicine q"
      by (auto simp: handleAddMedicine_None_iff)
    then have c: "itemCounter (step ev st) = itemCounter st + 1"
      using True step_add by simp
    from Cons.prems True have "i = itemCounter st + 1 \<or> i \<in> set (assignedIds evs (step ev st))"
      by auto
    then show ?thesis
    proof
      assume "i = itemCounter st + 1"
      then show ?thesis using c itemCounter_run_mono [of "step ev st" evs] by simp
    next
      assume "i \<in> set (assignedIds evs (step ev st))"
      from Cons.IH [OF this] show ?thesis using c by simp
    qed
  next
    case False
    then have c: "itemCounter (step ev st) = itemCounter st" using step_other by simp
    from Cons.prems False have "i \<in> set (assignedIds evs (step ev st))"
      by (auto split: if_splits)
    from Cons.IH [OF this] show ?thesis using c by simp
  qed
qed

lemma assignedIds_increasing: "sorted_wrt (<) (assignedIds evs st)"
proof (induction evs arbitrary: st)
  case Nil
  show ?case by simp
next
  case (Cons ev evs)
  show ?case
  proof (cases "ev = AddMedicine \<and> snd (handleAddMedicine st) = None")
    case True
    then obtain medicine q where "accepts st medicine q"
      by (auto simp: handleAddMedicine_None_iff)
    then have c: "itemCounter (step ev st) = itemCounter st + 1"
      using True step_add by simp
    have "\<forall>i\<in>set (assignedIds evs (step ev st)). itemCounter st + 1 < i"
      using assignedIds_bounds [of _ evs "step ev st"] c by auto
    then show ?thesis using True Cons.IH [of "step ev st"] by simp
  next
    case False
    then show ?thesis using Cons.IH [of "step ev st"] by auto
  qed
qed

lemma billItems_assigned:
  "set (map item_id (billItems (run evs st)))
     \<subseteq> set (map item_id (billItems st)) \<union> set (assignedIds evs st)"
proof (induction evs arbitrary: st)
  case Nil
  show ?case by simp
next
  case (Cons ev evs)
  have ih: "set (map item_id (billItems (run evs (step ev st))))
              \<subseteq> set (map item_id (billItems (step ev st))) \<union> set (assignedIds evs (step ev st))"
    by (rule Cons.IH)
  show ?case
  proof (cases "ev = AddMedicine \<and> snd (handleAddMedicine st) = None")
    case True
    then obtain medicine q where "accepts st medicine q"
      by (auto simp: handleAddMedicine_None_iff)
    then have "billItems (step ev st) = billItems st @ [newItem st medicine q]"
      using True step_add by simp
    then have b: "set (map item_id (billItems (step ev st)))
                 = set (map item_id (billItems st)) \<union> {itemCounter st + 1}"
      by (simp add: newItem_def)
    have a: "set (assignedIds (ev # evs) st)
               = {itemCounter st + 1} \<union> set (assignedIds evs (step ev st))"
      using True by simp
    show ?thesis using ih unfolding a b run.simps by blast
  next
    case False
    from step_other [OF False] obtain P where "billItems (step ev st) = filter P (billItems st)"
      by blast
    then have b: "set (map item_id (billItems (step ev st))) \<subseteq> set (map item_id (billItems st))"
      by auto
    have a: "assignedIds (ev # evs) st = assignedIds evs (step ev st)"
      using False by auto
    show ?thesis using ih b unfolding a run.simps by blast
  qed
qed

lemma remove_one:
  assumes "distinct (map item_id (xs @ x # ys))"
  shows "filter (\<lambda>item. item_id item \<noteq> item_id x) (xs @ x # ys) = xs @ ys"
proof -
  have "item_id x \<notin> item_id ` set xs" and "item_id x \<notin> item_id ` set ys"
    using assms by auto
  then have "\<forall>y\<in>set xs. item_id y \<noteq> item_id x" and "\<forall>y\<in>set ys. item_id y \<noteq> item_id x"
    by (metis imageI)+
  then show ?thesis by (simp add: filter_id_conv)
qed

lemma idsBelow_initial: "idsBelow initialState"
  by (simp add: idsBelow_def initialState_def)

lemma run_removalScenario: "run removalScenario initialState = removalState"
  by (simp add: removalScenario_def removalState_def model_defs js_defs)

lemma assignedIds_removalScenario: "assignedIds removalScenario initialState = [1, 2, 3]"
  by (simp add: removalScenario_def model_defs js_defs)

section \<open>Reading back what \<^verbatim>\<open>toFixed\<close> wrote\<close>





lemma natDigits_nonempty: "natDigits n \<noteq> []"
  by (subst natDigits.simps) simp










section \<open>The steps of a submission\<close>

lemma finalAmount_cong:
  "billItems st' = billItems st \<Longrightarrow> discount st' = discount st \<Longrightarrow> finalAmount st' = finalAmount st"
  by (simp add: finalAmount_def grandTotal_def discountValue_def)

lemma handleSubmit_blocked:
  "submitValidation st = Some t \<Longrightarrow> handleSubmit res st = (st, Some t, None)"
  by (simp add: handleSubmit_def)

lemma handleSubmit_sent:
  "submitValidation st = None \<Longrightarrow>
   snd (handleSubmit res st) = (None, Some (invoiceData st))"
  by (simp add: handleSubmit_def Let_def)

lemma payState_fields:
  "paymentMode (payState m c u) = m" "cashAmount (payState m c u) = c"
  "upiAmount (payState m c u) = u" "billItems (payState m c u) = billItems scenarioState"
  "discount (payState m c u) = ''5.00''"
  by (simp_all add: payState_def scenarioState_def)


lemma payState_finalAmount: "finalAmount (payState m c u) = 60"
  by (simp add: payState_def scenarioState_def finalAmount_def grandTotal_def discountValue_def
        js_defs)

lemma draft_render:
  assumes "paymentMode st' = paymentMode st" and "billItems st' = billItems st"
    and "discount st' = discount st"
  shows "render st st' = st'"
  using assms(1) finalAmount_cong [OF assms(2,3)] by (simp add: render_def)

lemma render_unset: "paymentMode st' = [] \<Longrightarrow> render st st' = st'"
  by (simp add: render_def paymentModeEffect_def)

lemma handleSubmit_failed:
  assumes "submitValidation st = None" and "\<not> succeeded res"
  shows "paymentMode (fst (handleSubmit res st)) = paymentMode st
       \<and> billItems (fst (handleSubmit res st)) = billItems st
       \<and> discount (fst (handleSubmit res st)) = discount st
       \<and> cashAmount (fst (handleSubmit res st)) = cashAmount st
       \<and> upiAmount (fst (handleSubmit res st)) = upiAmount st
       \<and> (\<exists>e. submitMessage (fst (handleSubmit res st)) = Some (SubmitError e))"
  using assms
  by (cases res) (simp_all add: handleSubmit_def Let_def succeeded_def)

lemma handleSubmit_succeeded:
  assumes "submitValidation st = None" and "succeeded res"
  shows "paymentMode (fst (handleSubmit res st)) = []
       \<and> billItems (fst (handleSubmit res st)) = []
       \<and> discount (fst (handleSubmit res st)) = []
       \<and> cashAmount (fst (handleSubmit res st)) = []
       \<and> upiAmount (fst (handleSubmit res st)) = []
       \<and> (\<exists>i t. submitMessage (fst (handleSubmit res st)) = Some (InvoiceCreated i t))"
  using assms
  by (cases res) (simp_all add: handleSubmit_def handleClearForm_def Let_def succeeded_def)








lemma enteredPrice_double: "toDouble (enteredPrice st) = enteredPrice st"
  unfolding enteredPrice_def by (rule orZero_parseFloat_double)

section \<open>The bill aggregator\<close>



section \<open>Adding a line: stock and quantity\<close>

text \<open>
  Claim C3. Once a medicine of the list is selected and the quantity field reads as a
  positive integer \<open>q\<close>, \<^verbatim>\<open>handleAddMedicine\<close> refuses the line, with the toast that
  reports the available and the requested quantity and with the state unchanged, if and
  only if \<open>q\<close> is strictly greater than the stock of the medicine. For every \<open>q\<close> up to
  the stock there is no toast and the line is appended to the bill with the next id, the
  counter advanced and the entry fields reset; in particular a request for exactly the
  stock is accepted.
\<close>

theorem stock_validator:
  assumes "selectedMedicine st \<noteq> []" and "quantity st \<noteq> []"
    and "find (\<lambda>m. MName m = selectedMedicine st) (medicines st) = Some medicine"
    and "parseInt (quantity st) = Some q" and "0 < q"
  shows "(handleAddMedicine st = (st, Some (InsufficientStock (CurrentStock medicine) q)))
           = (CurrentStock medicine < real_of_int q)
       \<and> (snd (handleAddMedicine st) = None) = (real_of_int q \<le> CurrentStock medicine)
       \<and> (real_of_int q \<le> CurrentStock medicine \<longrightarrow>
            handleAddMedicine st
              = (st\<lparr> billItems := billItems st @ [newItem st medicine q],
                     itemCounter := itemCounter st + 1, selectedMedicine := [], quantity := [],
                     duration := [], batchNo := ''-'', medicineDetails := None,
                     currentStock := None \<rparr>, None))
       \<and> (real_of_int q = CurrentStock medicine \<longrightarrow>
            billItems (fst (handleAddMedicine st)) = billItems st @ [newItem st medicine q])"
  using assms by (simp add: handleAddMedicine_def)

theorem stock_validator_witness:
  "handleAddMedicine (stockState ''5'') \<noteq> (stockState ''5'', Some (InsufficientStock 5 5))
   \<and> snd (handleAddMedicine (stockState ''5'')) = None
   \<and> map qty (billItems (fst (handleAddMedicine (stockState ''5'')))) = [5]
   \<and> map qty (billItems (fst (handleAddMedicine (stockState ''3'')))) = [3]
   \<and> itemCounter (fst (handleAddMedicine (stockState ''3''))) = 1
   \<and> handleAddMedicine (stockState ''6'') = (stockState ''6'', Some (InsufficientStock 5 6))"
proof -
  have m: "find (\<lambda>m. MName m = selectedMedicine (stockState v)) (medicines (stockState v))
             = Some paracetamol" for v
    by (simp add: stockState_def sampleMedicines_def paracetamol_def)
  have s: "selectedMedicine (stockState v) \<noteq> []" for v by (simp add: stockState_def)
  have q: "quantity (stockState ''5'') \<noteq> []" "quantity (stockState ''6'') \<noteq> []"
    "quantity (stockState ''3'') \<noteq> []"
    by (simp_all add: stockState_def)
  have p: "parseInt (quantity (stockState ''5'')) = Some 5"
    "parseInt (quantity (stockState ''6'')) = Some 6"
    "parseInt (quantity (stockState ''3'')) = Some 3"
    by (simp_all add: stockState_def js_defs)
  have c: "CurrentStock paracetamol = 5" by (simp add: paracetamol_def)
  have e: "billItems (stockState v) = []" "itemCounter (stockState v) = 0" for v
    by (simp_all add: stockState_def initialState_def)
  show ?thesis
    using stock_validator [OF s q(1) m p(1)] stock_validator [OF s q(2) m p(2)]
      stock_validator [OF s q(3) m p(3)] c
    by (simp add: newItem_def e)
qed

text \<open>
  Claim C4, as stated, fails for a quantity that is not an integer: \<^verbatim>\<open>parseInt\<close> reads
  the digits before the point, so the quantity \<^verbatim>\<open>2.5\<close> is accepted and the line is added
  with quantity 2.
\<close>

theorem fractional_quantity_accepted:
  "quantity fractionalState = ''2.5''
   \<and> snd (handleAddMedicine fractionalState) = None
   \<and> billItems fractionalState = []
   \<and> map qty (billItems (fst (handleAddMedicine fractionalState))) = [2]"
  by (simp add: fractionalState_def stockState_def handleAddMedicine_def newItem_def
        sampleMedicines_def initialState_def js_defs)

text \<open>
  Claim C4, amended. \<^verbatim>\<open>handleAddMedicine\<close> leaves the whole state unchanged, and with it
  the sequence of lines, and shows a toast when the medicine name is empty, when the
  quantity field is empty or does not begin with an integer, or when the integer that
  \<^verbatim>\<open>parseInt\<close> reads from it is zero or negative.
\<close>

theorem addLine_rejections:
  assumes "selectedMedicine st = [] \<or> quantity st = [] \<or> parseInt (quantity st) = None
           \<or> (\<exists>q. parseInt (quantity st) = Some q \<and> q \<le> 0)"
  shows "fst (handleAddMedicine st) = st \<and> snd (handleAddMedicine st) \<noteq> None"
  using assms by (auto simp: handleAddMedicine_def split: option.splits)

theorem addLine_rejections_witness:
  "parseInt (quantity (stockState ''abc'')) = None
   \<and> fst (handleAddMedicine (stockState ''abc'')) = stockState ''abc''
   \<and> snd (handleAddMedicine (stockState ''abc'')) \<noteq> None
   \<and> parseInt (quantity (stockState ''-3'')) = Some (- 3)
   \<and> fst (handleAddMedicine (stockState ''-3'')) = stockState ''-3''
   \<and> fst (handleAddMedicine (stockState ''0.5'')) = stockState ''0.5''"
proof -
  have a: "parseInt (quantity (stockState ''abc'')) = None"
    by (simp add: stockState_def js_defs)
  have b: "parseInt (quantity (stockState ''-3'')) = Some (- 3)"
    by (simp add: stockState_def js_defs)
  have c: "parseInt (quantity (stockState ''0.5'')) = Some 0"
    by (simp add: stockState_def js_defs)
  show ?thesis
    using addLine_rejections [of "stockState ''abc''"] addLine_rejections [of "stockState ''-3''"]
      addLine_rejections [of "stockState ''0.5''"] a b c
    by simp
qed

section \<open>Line ids and removal\<close>

text \<open>
  Claim C5. In every state reached from the empty start: an accepted candidate becomes
  the last line of the sequence, and its id is the counter plus one, an id that no
  line accepted earlier in the run has had, removed or not; the ids given along a run
  are strictly increasing and no event lowers the counter; every line of the bill
  carries one of these ids. \<^verbatim>\<open>handleRemoveMedicine\<close> filters the sequence by id, changes
  nothing when no line has the id, and otherwise takes out exactly the line with the id,
  the lines before and after it staying as they are and in their order.
\<close>

theorem line_ids_and_removal:
  assumes "st = run evs initialState"
  shows "(\<forall>medicine q. accepts st medicine q \<longrightarrow>
            handleAddMedicine st
              = (st\<lparr> billItems := billItems st @ [newItem st medicine q],
                     itemCounter := itemCounter st + 1, selectedMedicine := [], quantity := [],
                     duration := [], batchNo := ''-'', medicineDetails := None,
                     currentStock := None \<rparr>, None)
            \<and> item_id (newItem st medicine q) = itemCounter st + 1
            \<and> item_id (newItem st medicine q) \<notin> set (assignedIds evs initialState))
       \<and> sorted_wrt (<) (assignedIds evs initialState)
       \<and> set (map item_id (billItems st)) \<subseteq> set (assignedIds evs initialState)
       \<and> (\<forall>ev. itemCounter st \<le> itemCounter (step ev st))
       \<and> (\<forall>i. handleRemoveMedicine i st
                 = st\<lparr> billItems := filter (\<lambda>item. item_id item \<noteq> i) (billItems st) \<rparr>)
       \<and> (\<forall>i. i \<notin> set (map item_id (billItems st)) \<longrightarrow> handleRemoveMedicine i st = st)
       \<and> (\<forall>xs x ys. billItems st = xs @ x # ys \<longrightarrow>
                 billItems (handleRemoveMedicine (item_id x) st) = xs @ ys)"
proof -
  have inv: "idsBelow st" using assms idsBelow_initial by (simp add: idsBelow_run)
  have fresh: "itemCounter st + 1 \<notin> set (assignedIds evs initialState)"
    using assignedIds_bounds [of "itemCounter st + 1" evs initialState] assms by auto
  have sub: "set (map item_id (billItems st)) \<subseteq> set (assignedIds evs initialState)"
    using billItems_assigned [of evs initialState] assms by (simp add: initialState_def)
  have dist: "distinct (map item_id (billItems st))"
    using inv by (simp add: idsBelow_def strict_sorted_iff)
  have noop: "handleRemoveMedicine i st = st" if "i \<notin> set (map item_id (billItems st))" for i
  proof -
    have "filter (\<lambda>item. item_id item \<noteq> i) (billItems st) = billItems st"
      using that by (auto simp: filter_id_conv)
    then show ?thesis by (simp add: handleRemoveMedicine_def)
  qed
  have one: "billItems (handleRemoveMedicine (item_id x) st) = xs @ ys"
    if "billItems st = xs @ x # ys" for xs x ys
    using that dist remove_one [of xs x ys] by (simp add: handleRemoveMedicine_def)
  show ?thesis
    using fresh sub noop one assignedIds_increasing [of evs initialState]
      itemCounter_step_mono [of st]
    by (simp add: handleAddMedicine_accepts newItem_def handleRemoveMedicine_def)
qed

theorem line_ids_and_removal_witness:
  "removalState = run removalScenario initialState
   \<and> accepts removalState amoxicillin 4
   \<and> assignedIds removalScenario initialState = [1, 2, 3]
   \<and> map item_id (billItems removalState) = [1, 3]
   \<and> map item_id (billItems (fst (handleAddMedicine removalState))) = [1, 3, 4]
   \<and> handleRemoveMedicine 2 removalState = removalState
   \<and> map item_id (billItems (handleRemoveMedicine 1 removalState)) = [3]"
proof -
  have a: "removalState = run removalScenario initialState" by (simp add: run_removalScenario)
  note T = line_ids_and_removal [OF a]
  have b: "accepts removalState amoxicillin 4"
    by (simp add: accepts_def removalState_def amoxicillin_def sampleMedicines_def js_defs)
  have c: "map item_id (billItems removalState) = [1, 3]" by (simp add: removalState_def)
  have n: "itemCounter removalState = 3" by (simp add: removalState_def)
  from T b have "handleAddMedicine removalState
       = (removalState\<lparr> billItems := billItems removalState @ [newItem removalState amoxicillin 4],
            itemCounter := itemCounter removalState + 1, selectedMedicine := [], quantity := [],
            duration := [], batchNo := ''-'', medicineDetails := None,
            currentStock := None \<rparr>, None)"
    by blast
  then have d: "map item_id (billItems (fst (handleAddMedicine removalState))) = [1, 3, 4]"
    using c n by (simp add: newItem_def)
  from T have "\<forall>i. i \<notin> set (map item_id (billItems removalState)) \<longrightarrow>
                   handleRemoveMedicine i removalState = removalState"
    by blast
  then have e: "handleRemoveMedicine 2 removalState = removalState"
    using c by simp
  from T have r: "\<forall>xs x ys. billItems removalState = xs @ x # ys \<longrightarrow>
                 billItems (handleRemoveMedicine (item_id x) removalState) = xs @ ys"
    by blast
  have "billItems removalState = [] @ hd (billItems removalState) # [last (billItems removalState)]"
    by (simp add: removalState_def)
  with r have "billItems (handleRemoveMedicine (item_id (hd (billItems removalState))) removalState)
                 = [] @ [last (billItems removalState)]"
    by blast
  then have f: "map item_id (billItems (handleRemoveMedicine 1 removalState)) = [3]"
    by (simp add: removalState_def)
  show ?thesis using a b c d e f by (simp add: assignedIds_removalScenario)
qed

section \<open>Payment\<close>






text \<open>
  Claim C8. For a submission that passes the checks and is sent: after the event the
  bill in progress (lines, discount, payment mode, cash and UPI amounts) is empty if and
  only if the server answered with success, and then the message announces the invoice;
  when the request throws or the server answers without success, the bill in progress
  is exactly what it was and the message is an error. A submission stopped by a check
  changes nothing.
\<close>

theorem draft_cleared_iff_success:
  "(submitValidation st = None \<longrightarrow>
      (draft (step (Submit res) st) = ([], [], [], [], [])) = succeeded res
      \<and> (succeeded res \<longrightarrow>
            (\<exists>i t. submitMessage (step (Submit res) st) = Some (InvoiceCreated i t)))
      \<and> (\<not> succeeded res \<longrightarrow>
            draft (step (Submit res) st) = draft st
            \<and> (\<exists>e. submitMessage (step (Submit res) st) = Some (SubmitError e))))
   \<and> (submitValidation st \<noteq> None \<longrightarrow> step (Submit res) st = st)"
proof (intro conjI impI)
  assume "submitValidation st \<noteq> None"
  then obtain t where "submitValidation st = Some t" by blast
  then have "handle (Submit res) st = st" by (simp add: handleSubmit_blocked)
  then show "step (Submit res) st = st" by (simp add: step_def draft_render)
next
  assume v: "submitValidation st = None"
  then have ne: "billItems st \<noteq> []" by (auto simp: submitValidation_def split: if_splits)
  have ok: "draft (step (Submit res) st) = ([], [], [], [], [])
            \<and> (\<exists>i t. submitMessage (step (Submit res) st) = Some (InvoiceCreated i t))"
    if "succeeded res"
  proof -
    note h = handleSubmit_succeeded [OF v that]
    have "step (Submit res) st = fst (handleSubmit res st)"
      using h by (simp add: step_def render_unset)
    then show ?thesis using h by (simp add: draft_def)
  qed
  have ko: "draft (step (Submit res) st) = draft st
            \<and> (\<exists>e. submitMessage (step (Submit res) st) = Some (SubmitError e))"
    if "\<not> succeeded res"
  proof -
    note h = handleSubmit_failed [OF v that]
    have "step (Submit res) st = fst (handleSubmit res st)"
      using h by (simp add: step_def draft_render)
    then show ?thesis using h by (simp add: draft_def)
  qed
  show "(draft (step (Submit res) st) = ([], [], [], [], [])) = succeeded res"
  proof (cases "succeeded res")
    case True
    then show ?thesis using ok by simp
  next
    case False
    then have "draft (step (Submit res) st) = draft st" using ko by simp
    then have "draft (step (Submit res) st) \<noteq> ([], [], [], [], [])"
      using ne by (simp add: draft_def)
    then show ?thesis using False by simp
  qed
  show "\<exists>i t. submitMessage (step (Submit res) st) = Some (InvoiceCreated i t)"
    if "succeeded res" using ok that by simp
  show "draft (step (Submit res) st) = draft st" if "\<not> succeeded res" using ko that by simp
  show "\<exists>e. submitMessage (step (Submit res) st) = Some (SubmitError e)"
    if "\<not> succeeded res" using ko that by simp
qed

theorem draft_cleared_iff_success_witness:
  "submitValidation (payState ''Cash'' ''60.00'' ''0.00'') = None
   \<and> succeeded serverOk
   \<and> draft (step (Submit serverOk) (payState ''Cash'' ''60.00'' ''0.00'')) = ([], [], [], [], [])
   \<and> \<not> succeeded networkError
   \<and> draft (step (Submit networkError) (payState ''Cash'' ''60.00'' ''0.00''))
       = (billItems scenarioState, ''5.00'', ''Cash'', ''60.00'', ''0.00'')
   \<and> submitValidation (payState [] [] []) \<noteq> None
   \<and> step (Submit serverOk) (payState [] [] []) = payState [] [] []"
proof -
  have v: "submitValidation (payState ''Cash'' ''60.00'' ''0.00'') = None"
    by (simp add: submitValidation_def payState_def scenarioState_def finalAmount_def
          grandTotal_def discountValue_def js_defs)
  have w: "submitValidation (payState [] [] []) \<noteq> None"
    by (simp add: submitValidation_def payState_def scenarioState_def finalAmount_def
          grandTotal_def discountValue_def js_defs)
  have s: "succeeded serverOk" "\<not> succeeded networkError"
    by (simp_all add: succeeded_def serverOk_def networkError_def)
  have d: "draft (payState ''Cash'' ''60.00'' ''0.00'')
             = (billItems scenarioState, ''5.00'', ''Cash'', ''60.00'', ''0.00'')"
    by (simp add: draft_def payState_fields)
  show ?thesis
    using draft_cleared_iff_success [of "payState ''Cash'' ''60.00'' ''0.00''" serverOk]
      draft_cleared_iff_success [of "payState ''Cash'' ''60.00'' ''0.00''" networkError]
      draft_cleared_iff_success [of "payState [] [] []" serverOk]
      v w s d
    by simp
qed

text \<open>
  Claim C10. Whenever \<^verbatim>\<open>handleSubmit\<close> posts a payload: in mode \<^verbatim>\<open>Cash\<close> its cash
  amount is the final amount and its UPI amount is 0, in mode \<^verbatim>\<open>UPI\<close> the other way
  round, so that the two add up to the final amount exactly and neither comes from the
  amount fields; in mode \<^verbatim>\<open>Both\<close> they are the amounts entered, 0 for one that does
  not parse, and \<^verbatim>\<open>Math.abs(cash_amount + upi_amount - finalAmount)\<close>, in the arithmetic
  of doubles, is at most the double \<^verbatim>\<open>0.01\<close>; the exact difference of the three
  numbers is then at most 0.01 and \<open>(|cash_amount + upi_amount| + 1) / 2^53\<close>.
\<close>

theorem payload_amounts:
  assumes "snd (snd (handleSubmit res st)) = Some p"
  shows "(paymentMode st = ''Cash'' \<longrightarrow>
            cash_amount p = finalAmount st \<and> upi_amount p = 0
            \<and> cash_amount p + upi_amount p = finalAmount st)
       \<and> (paymentMode st = ''UPI'' \<longrightarrow>
            upi_amount p = finalAmount st \<and> cash_amount p = 0
            \<and> cash_amount p + upi_amount p = finalAmount st)
       \<and> (paymentMode st = ''Both'' \<longrightarrow>
            cash_amount p = orZero (parseFloat (cashAmount st))
            \<and> upi_amount p = orZero (parseFloat (upiAmount st))
            \<and> \<bar>numSub (numAdd (cash_amount p) (upi_amount p)) (finalAmount st)\<bar> \<le> tolerance
            \<and> \<bar>cash_amount p + upi_amount p - finalAmount st\<bar>
                 \<le> 1 / 100 + (\<bar>cash_amount p + upi_amount p\<bar> + 1) / 2 ^ 53)"
proof (cases "submitValidation st")
  case None
  then have p: "p = invoiceData st" using assms by (simp add: handleSubmit_sent)
  have "paymentMode st = ''Both'' \<Longrightarrow>
          \<bar>numSub (numAdd (orZero (parseFloat (cashAmount st)))
                          (orZero (parseFloat (upiAmount st))))
                  (finalAmount st)\<bar> \<le> tolerance"
    using None by (simp add: submitValidation_def split: if_splits)
  then show ?thesis
    using split_check_sound [of "orZero (parseFloat (cashAmount st))"
            "orZero (parseFloat (upiAmount st))" "finalAmount st"]
    unfolding p by (simp add: invoiceData_def)
next
  case (Some t)
  then show ?thesis using assms by (simp add: handleSubmit_blocked)
qed

theorem payload_amounts_witness:
  "snd (snd (handleSubmit serverOk (payState ''Cash'' ''1'' ''2'')))
     = Some (invoiceData (payState ''Cash'' ''1'' ''2''))
   \<and> cash_amount (invoiceData (payState ''Cash'' ''1'' ''2'')) = 60
   \<and> upi_amount (invoiceData (payState ''Cash'' ''1'' ''2'')) = 0
   \<and> snd (snd (handleSubmit serverOk (payState ''UPI'' ''1'' ''2'')))
     = Some (invoiceData (payState ''UPI'' ''1'' ''2''))
   \<and> upi_amount (invoiceData (payState ''UPI'' ''1'' ''2'')) = 60
   \<and> snd (snd (handleSubmit serverOk (payState ''Both'' ''60.005'' ''abc'')))
     = Some (invoiceData (payState ''Both'' ''60.005'' ''abc''))
   \<and> cash_amount (invoiceData (payState ''Both'' ''60.005'' ''abc''))
       = 8444952988761457 / 140737488355328
   \<and> upi_amount (invoiceData (payState ''Both'' ''60.005'' ''abc'')) = 0"
proof -
  have v: "submitValidation (payState ''Cash'' ''1'' ''2'') = None"
    "submitValidation (payState ''UPI'' ''1'' ''2'') = None"
    "submitValidation (payState ''Both'' ''60.005'' ''abc'') = None"
    by (simp_all add: submitValidation_def payState_def scenarioState_def finalAmount_def
          grandTotal_def discountValue_def js_defs)
  have s: "snd (snd (handleSubmit serverOk (payState ''Cash'' ''1'' ''2'')))
             = Some (invoiceData (payState ''Cash'' ''1'' ''2''))"
    "snd (snd (handleSubmit serverOk (payState ''UPI'' ''1'' ''2'')))
             = Some (invoiceData (payState ''UPI'' ''1'' ''2''))"
    "snd (snd (handleSubmit serverOk (payState ''Both'' ''60.005'' ''abc'')))
             = Some (invoiceData (payState ''Both'' ''60.005'' ''abc''))"
    using v by (simp_all add: handleSubmit_sent)
  have p: "orZero (parseFloat ''60.005'') = 8444952988761457 / 140737488355328"
    "orZero (parseFloat ''abc'') = 0"
    by (simp_all add: js_defs)
  show ?thesis
    using payload_amounts [OF s(1)] payload_amounts [OF s(2)] payload_amounts [OF s(3)] s
    by (simp add: payState_fields payState_finalAmount p)
qed

section \<open>Purchase entry\<close>

text \<open>
  Claim C7. When \<^verbatim>\<open>handleAddItem\<close> adds an item, the difference it stores is the
  catalogue MRP less the purchase price entered, a subtraction of doubles, within
  \<open>2^-53\<close> of the exact difference in proportion: positive exactly when the price is
  below the MRP, negative exactly when it is above. The MRP
  counts as 0 when no details of the medicine are loaded or when they carry no number for
  it, and the difference is then the price negated. Whether the item is added depends on
  the selected medicine and on the quantity alone: no value of the details or of the
  price field changes it.
\<close>

theorem price_difference:
  "(addItemGuards st \<longrightarrow>
      items (handleAddItem st)
        = items st @ [\<lparr> purchase_id = inv_itemCounter st + 1,
                         item_name = inv_selectedMedicine st,
                         purchase_quantity = parseInt (inv_quantity st),
                         batch_no = inv_batchNo st,
                         expiry_date = expiryDate st,
                         purchase_price = enteredPrice st,
                         difference = numSub (catalogMRP st) (enteredPrice st) \<rparr>]
      \<and> message (handleAddItem st) = None)
   \<and> (\<not> addItemGuards st \<longrightarrow>
        items (handleAddItem st) = items st \<and> message (handleAddItem st) \<noteq> None)
   \<and> addItemGuards (st\<lparr> inv_medicineDetails := md, purchasePrice := pp \<rparr>) = addItemGuards st
   \<and> (0 < numSub (catalogMRP st) (enteredPrice st)) = (enteredPrice st < catalogMRP st)
   \<and> (numSub (catalogMRP st) (enteredPrice st) < 0) = (catalogMRP st < enteredPrice st)
   \<and> \<bar>numSub (catalogMRP st) (enteredPrice st) - (catalogMRP st - enteredPrice st)\<bar>
        \<le> \<bar>catalogMRP st - enteredPrice st\<bar> / 2 ^ 53
   \<and> (inv_medicineDetails st = None \<longrightarrow>
        catalogMRP st = 0 \<and> numSub (catalogMRP st) (enteredPrice st) = - enteredPrice st)
   \<and> (\<forall>d. inv_medicineDetails st = Some d \<and> inv_MRP d = None \<longrightarrow>
        catalogMRP st = 0 \<and> numSub (catalogMRP st) (enteredPrice st) = - enteredPrice st)
   \<and> (\<forall>d m. inv_medicineDetails st = Some d \<and> inv_MRP d = Some m \<longrightarrow> catalogMRP st = m)"
proof -
  have z: "numSub 0 (enteredPrice st) = - enteredPrice st"
    by (simp add: numSub_def toDouble_minus enteredPrice_double)
  have a: "addItemGuards st \<Longrightarrow>
      items (handleAddItem st)
        = items st @ [\<lparr> purchase_id = inv_itemCounter st + 1,
                         item_name = inv_selectedMedicine st,
                         purchase_quantity = parseInt (inv_quantity st),
                         batch_no = inv_batchNo st,
                         expiry_date = expiryDate st,
                         purchase_price = enteredPrice st,
                         difference = numSub (catalogMRP st) (enteredPrice st) \<rparr>]
      \<and> message (handleAddItem st) = None"
    by (auto simp: handleAddItem_def addItemGuards_def enteredPrice_def Let_def
             split: option.splits)
  have b: "\<not> addItemGuards st \<Longrightarrow>
        items (handleAddItem st) = items st \<and> message (handleAddItem st) \<noteq> None"
    by (auto simp: handleAddItem_def addItemGuards_def Let_def split: option.splits)
  have c: "addItemGuards (st\<lparr> inv_medicineDetails := md, purchasePrice := pp \<rparr>)
             = addItemGuards st"
    by (simp add: addItemGuards_def)
  have s: "(0 < numSub (catalogMRP st) (enteredPrice st)) = (enteredPrice st < catalogMRP st)"
    "(numSub (catalogMRP st) (enteredPrice st) < 0) = (catalogMRP st < enteredPrice st)"
    by (simp_all add: numSub_def)
  have n: "inv_medicineDetails st = None \<Longrightarrow> catalogMRP st = 0"
    by (simp add: catalogMRP_def)
  have n2: "inv_medicineDetails st = Some d \<Longrightarrow> inv_MRP d = None \<Longrightarrow> catalogMRP st = 0" for d
    by (simp add: catalogMRP_def orZero_def)
  have n3: "inv_medicineDetails st = Some d \<Longrightarrow> inv_MRP d = Some m \<Longrightarrow> catalogMRP st = m"
    for d m
    by (simp add: catalogMRP_def orZero_def)
  have r: "\<bar>numSub (catalogMRP st) (enteredPrice st) - (catalogMRP st - enteredPrice st)\<bar>
        \<le> \<bar>catalogMRP st - enteredPrice st\<bar> / 2 ^ 53"
    unfolding numSub_def by (rule toDouble_error_abs)
  show ?thesis using a b c s n n2 n3 z r by (smt (verit, ccfv_threshold))
qed

theorem price_difference_witness:
  "addItemGuards (purchaseEntry (Some 100) ''80'')
   \<and> map difference (items (handleAddItem (purchaseEntry (Some 100) ''80''))) = [20]
   \<and> map difference (items (handleAddItem (purchaseEntry (Some 100) ''120''))) = [- 20]
   \<and> map difference (items (handleAddItem (purchaseEntry None ''80''))) = [- 80]
   \<and> \<not> addItemGuards ((purchaseEntry (Some 100) ''80'')\<lparr> inv_quantity := ''0'' \<rparr>)
   \<and> items (handleAddItem ((purchaseEntry (Some 100) ''80'')\<lparr> inv_quantity := ''0'' \<rparr>)) = []"
proof -
  have g: "addItemGuards (purchaseEntry m p)" for m p
    by (simp add: addItemGuards_def purchaseEntry_def js_defs)
  have n: "\<not> addItemGuards ((purchaseEntry m p)\<lparr> inv_quantity := ''0'' \<rparr>)" for m p
    by (simp add: addItemGuards_def purchaseEntry_def js_defs)
  have c: "catalogMRP (purchaseEntry (Some 100) p) = 100" "catalogMRP (purchaseEntry None p) = 0" for p
    by (simp_all add: catalogMRP_def purchaseEntry_def orZero_def)
  have e: "enteredPrice (purchaseEntry m ''80'') = 80" "enteredPrice (purchaseEntry m ''120'') = 120" for m
    by (simp_all add: enteredPrice_def purchaseEntry_def js_defs)
  have i: "items (purchaseEntry m p) = []" for m p by (simp add: purchaseEntry_def)
  have d: "numSub 100 80 = 20" "numSub 100 120 = - 20" "numSub 0 80 = - 80"
    by (simp_all add: js_defs)
  show ?thesis
    using price_difference [of "purchaseEntry (Some 100) ''80''"]
      price_difference [of "purchaseEntry (Some 100) ''120''"]
      price_difference [of "purchaseEntry None ''80''"]
      price_difference [of "(purchaseEntry (Some 100) ''80'')\<lparr> inv_quantity := ''0'' \<rparr>"]
      g n
    by (simp add: c e i d)
qed

text \<open>
  Claim C9. \<^verbatim>\<open>handleUpdatePrice\<close> ends in the same state whether the request returned
  or threw: the success message for the medicine, the modal closed, the spinner off; and
  in both cases it reloads the list of medicines. A request that threw leaves one more
  line on the console and nothing that the operator sees.
\<close>

theorem failed_update_shown_as_success:
  "fst (handleUpdatePrice UpdateThrew st) = fst (handleUpdatePrice UpdateReturned st)
   \<and> fst (handleUpdatePrice res st)
       = st\<lparr> showPriceUpdateConfirm := False, updatingPrice := False,
              message := Some (PriceUpdated (updateMedicineName st)),
              showUpdatePriceModal := False \<rparr>
   \<and> snd (handleUpdatePrice UpdateReturned st) = [FetchMedicines]
   \<and> snd (handleUpdatePrice UpdateThrew st) = [ConsoleError, FetchMedicines]"
  by (cases res) (simp_all add: handleUpdatePrice_def Let_def)

end
